theory Spec2Isabelle
  imports Complex_Main "HOL-Library.AList" "HOL-Library.Char_ord" "HOL-Library.List_Lexorder"
begin

section \<open>Numbers, errors and configuration\<close>

text \<open>
  Python floats are read as real numbers: rounding, infinities and NaN are outside the
  model. Strings are HOL strings. A Python exception is a value of \<open>py_error\<close>; a
  method that mutates its object returns the object it leaves behind, also when it raises.
\<close>

datatype py_error = KeyError | ValueError | ZeroDivisionError | LinAlgError

text \<open>\<^verbatim>\<open>config.py\<close>: \<^verbatim>\<open>METRICS\<close>.\<close>

definition METRICS_RTT :: string where "METRICS_RTT = ''rtt''"
definition METRICS_PLR :: string where "METRICS_PLR = ''plr''"
definition METRICS_BANDWIDTH :: string where "METRICS_BANDWIDTH = ''bandwidth''"
definition METRICS_LIVENESS :: string where "METRICS_LIVENESS = ''liveness''"

text \<open>\<^verbatim>\<open>SYSTEM_CONFIG\<close>.\<close>

definition top_k :: int where "top_k = 5"
definition probe_interval_min :: real where "probe_interval_min = 1"
definition probe_interval_max :: real where "probe_interval_max = 60"
definition sliding_window :: real where "sliding_window = 300"

text \<open>\<^verbatim>\<open>APS_CONFIG\<close>.\<close>

definition max_uncertainty :: real where "max_uncertainty = 2"
definition max_stability :: real where "max_stability = 5"
definition target_stability :: real where "target_stability = 1"
definition kp :: real where "kp = 1 / 10"

record priority_weights =
  w_eig :: real
  w_urgency :: real
  w_policy_match :: real
  w_event_trig :: real

definition APS_priority_weights :: priority_weights where
  "APS_priority_weights =
     \<lparr>w_eig = 4 / 10, w_urgency = 3 / 10, w_policy_match = 2 / 10, w_event_trig = 1 / 10\<rparr>"

text \<open>\<^verbatim>\<open>CMAB_STRATEGIES\<close>, in the order of the dictionary.\<close>

definition FOCUS_UNCERTAINTY :: string where "FOCUS_UNCERTAINTY = ''focus_uncertainty''"
definition HIGHFREQ_UNSTABLE :: string where "HIGHFREQ_UNSTABLE = ''highfreq_unstable''"
definition COVERAGE_BALANCER :: string where "COVERAGE_BALANCER = ''coverage_balancer''"
definition EVENT_TRIGGER :: string where "EVENT_TRIGGER = ''event_trigger''"

definition CMAB_STRATEGIES_values :: "string list" where
  "CMAB_STRATEGIES_values =
     [FOCUS_UNCERTAINTY, HIGHFREQ_UNSTABLE, COVERAGE_BALANCER, EVENT_TRIGGER]"

text \<open>\<^verbatim>\<open>EVENT_THRESHOLDS\<close>.\<close>

definition liveness_threshold :: real where "liveness_threshold = 8 / 10"
definition stability_threshold :: real where "stability_threshold = 3"
definition rtt_spike_factor :: real where "rtt_spike_factor = 3"
definition max_recent_events :: real where "max_recent_events = 100"

section \<open>The entity state manager as its clients see it\<close>

text \<open>
  Modelled from the spec: \<open>EntityState\<close> (\<^verbatim>\<open>modules/esm.py\<close> and
  \<^verbatim>\<open>utils/distributions.py\<close> are missing), "one instance per \<open>(entity_id, metric)\<close>" with
  a distribution, a stability and a probe interval. The record holds what the scheduler
  and the event manager read from a state: the attribute \<open>probe_interval\<close>, the values
  its methods \<open>get_stability()\<close>, \<open>get_uncertainty()\<close>, \<open>get_urgency()\<close> and
  \<open>distribution.get_confidence()\<close> return at the moment of the call, and
  \<open>distribution.mu\<close> when the distribution has that attribute.
\<close>

record EntityState =
  probe_interval :: real
  get_stability :: real
  get_uncertainty :: real
  get_urgency :: real
  get_confidence :: real
  distribution_mu :: "real option"


type_synonym state_key = "string \<times> string"

text \<open>
  Modelled from the spec: \<open>EntityStateManager\<close> (\<^verbatim>\<open>modules/esm.py\<close> is missing), which
  "owns the state table \<open>(entity_id, metric) \<rightarrow> EntityState\<close>". \<open>state_table\<close> is a Python
  dict, over whose \<open>items()\<close> the sources iterate: an association list in insertion
  order, whose keys are distinct.
\<close>

record ESM =
  state_table :: "(state_key \<times> EntityState) list"

definition clamp :: "real \<Rightarrow> real \<Rightarrow> real \<Rightarrow> real" where
  "clamp x lo hi = max lo (min hi x)"

text \<open>
  Modelled from the spec: \<open>ESM.get_state\<close> (\<^verbatim>\<open>modules/esm.py\<close> is missing),
  "\<open>get_state(entity_id, metric) \<rightarrow> EntityState | \<bottom>\<close>".
\<close>

definition get_state :: "ESM \<Rightarrow> string \<Rightarrow> string \<Rightarrow> EntityState option" where
  "get_state esm entity_id metric = map_of (state_table esm) (entity_id, metric)"

text \<open>
  Modelled from the spec: \<open>ESM.set_probe_interval\<close> (\<^verbatim>\<open>modules/esm.py\<close> is missing),
  "\<open>set_probe_interval(entity_id, metric, T)\<close>: clamps and stores", the bounds being
  \<open>probe_interval_min\<close> and \<open>probe_interval_max\<close>. A pair without state is left alone.
\<close>

definition set_probe_interval :: "ESM \<Rightarrow> string \<Rightarrow> string \<Rightarrow> real \<Rightarrow> ESM" where
  "set_probe_interval esm entity_id metric T =
     esm\<lparr>state_table :=
       map (\<lambda>(key, state).
             if key = (entity_id, metric)
             then (key, state\<lparr>probe_interval := clamp T probe_interval_min probe_interval_max\<rparr>)
             else (key, state))
           (state_table esm)\<rparr>"

section \<open>CTLC: the interval controller\<close>

record CTLC =
  ctlc_kp :: real
  ctlc_target_stability :: real
  min_interval :: real
  max_interval :: real

text \<open>\<open>CTLC.__init__(kp=0.1, target_stability=1.0)\<close>.\<close>

definition CTLC_init :: "real \<Rightarrow> real \<Rightarrow> CTLC" where
  "CTLC_init kp0 target0 =
     \<lparr>ctlc_kp = kp0, ctlc_target_stability = target0,
      min_interval = probe_interval_min, max_interval = probe_interval_max\<rparr>"

definition adjust_probe_interval :: "CTLC \<Rightarrow> real \<Rightarrow> real \<Rightarrow> real" where
  "adjust_probe_interval self current_interval stability =
     (let adjustment_factor = 1 + ctlc_kp self * (1 - stability / ctlc_target_stability self);
          new_interval = current_interval * adjustment_factor
      in max (min_interval self) (min (max_interval self) new_interval))"

record adjustment =
  adj_entity_id :: string
  adj_metric :: string
  old_interval :: real
  new_interval :: real
  adj_stability :: real

text \<open>
  The loop of \<open>batch_adjust\<close> over \<open>esm.state_table.items()\<close>: the items are those of
  the table when the sweep starts, each read once.
\<close>

fun batch_adjust_loop ::
  "CTLC \<Rightarrow> (state_key \<times> EntityState) list \<Rightarrow> ESM \<Rightarrow> adjustment list \<Rightarrow> ESM \<times> adjustment list"
where
  "batch_adjust_loop self [] esm adjustments = (esm, adjustments)"
| "batch_adjust_loop self (((entity_id, metric), state) # items) esm adjustments =
     (let old = probe_interval state;
          stability = get_stability state;
          new = adjust_probe_interval self old stability
      in if new \<noteq> old
         then batch_adjust_loop self items
                (set_probe_interval esm entity_id metric new)
                (adjustments @
                   [\<lparr>adj_entity_id = entity_id, adj_metric = metric, old_interval = old,
                     new_interval = new, adj_stability = stability\<rparr>])
         else batch_adjust_loop self items esm adjustments)"

definition batch_adjust :: "CTLC \<Rightarrow> ESM \<Rightarrow> ESM \<times> adjustment list" where
  "batch_adjust self esm = batch_adjust_loop self (state_table esm) esm []"

section \<open>The numpy operations the bandit uses\<close>

text \<open>
  A one-dimensional array is a list, a two-dimensional array the list of its rows. The
  operations are those \<open>CMAB\<close> calls, on operands whose shapes agree; operands whose
  shapes differ are reported as \<open>ValueError\<close> (numpy's broadcasting of operands of
  length one is not modelled).
\<close>

type_synonym vec = "real list"
type_synonym mat = "real list list"

definition np_zeros :: "nat \<Rightarrow> vec" where
  "np_zeros n = replicate n 0"

definition np_eye :: "nat \<Rightarrow> mat" where
  "np_eye n = map (\<lambda>i. map (\<lambda>j. if i = j then 1 else 0) [0..<n]) [0..<n]"

definition is_matrix :: "nat \<Rightarrow> nat \<Rightarrow> mat \<Rightarrow> bool" where
  "is_matrix r c A \<longleftrightarrow> length A = r \<and> list_all (\<lambda>row. length row = c) A"

text \<open>\<open>np.dot\<close> of two vectors, of a matrix and a vector, and of a column and its transpose.\<close>

definition vec_dot :: "vec \<Rightarrow> vec \<Rightarrow> real option" where
  "vec_dot u v = (if length u = length v then Some (sum_list (map2 (*) u v)) else None)"

definition mat_vec :: "mat \<Rightarrow> vec \<Rightarrow> vec option" where
  "mat_vec A v =
     (if is_matrix (length A) (length v) A
      then Some (map (\<lambda>row. sum_list (map2 (*) row v)) A) else None)"

definition outer :: "vec \<Rightarrow> vec \<Rightarrow> mat" where
  "outer u v = map (\<lambda>x. map (\<lambda>y. x * y) v) u"

definition vec_scale :: "real \<Rightarrow> vec \<Rightarrow> vec" where
  "vec_scale k v = map (\<lambda>x. k * x) v"

definition mat_scale :: "real \<Rightarrow> mat \<Rightarrow> mat" where
  "mat_scale k A = map (vec_scale k) A"

definition vec_add :: "vec \<Rightarrow> vec \<Rightarrow> vec option" where
  "vec_add u v = (if length u = length v then Some (map2 (+) u v) else None)"

definition mat_add :: "mat \<Rightarrow> mat \<Rightarrow> mat option" where
  "mat_add A B =
     (if length A = length B \<and> list_all2 (\<lambda>r s. length r = length s) A B
      then Some (map2 (map2 (+)) A B) else None)"

text \<open>
  \<open>np.linalg.inv\<close> is a library routine. Over the reals the inverse of a matrix is
  unique, so the order of elimination does not show in the result: the model is
  Gauss-Jordan elimination on the matrix extended by the identity, taking as pivot the
  first row with a non-zero entry in the column. \<open>None\<close> stands for \<open>LinAlgError\<close>
  (the argument is not square, or it is singular).
\<close>

definition swap_rows :: "nat \<Rightarrow> nat \<Rightarrow> mat \<Rightarrow> mat" where
  "swap_rows i j M = M[i := M ! j, j := M ! i]"

definition sub_row :: "vec \<Rightarrow> real \<Rightarrow> vec \<Rightarrow> vec" where
  "sub_row r k p = map2 (\<lambda>x y. x - k * y) r p"

fun gauss_jordan :: "nat list \<Rightarrow> mat \<Rightarrow> mat option" where
  "gauss_jordan [] M = Some M"
| "gauss_jordan (col # cols) M =
     (case filter (\<lambda>i. M ! i ! col \<noteq> 0) [col..<length M] of
        [] \<Rightarrow> None
      | i # _ \<Rightarrow>
          (let M1 = swap_rows col i M;
               p = vec_scale (1 / (M1 ! col ! col)) (M1 ! col);
               M2 = map (\<lambda>r. if r = col then p else sub_row (M1 ! r) (M1 ! r ! col) p)
                        [0..<length M1]
           in gauss_jordan cols M2))"

definition linalg_inv :: "mat \<Rightarrow> mat option" where
  "linalg_inv A =
     (let n = length A
      in if is_matrix n n A
         then map_option (map (drop n)) (gauss_jordan [0..<n] (map2 (@) A (np_eye n)))
         else None)"

section \<open>CMAB: the contextual bandit\<close>

record history_entry =
  h_context :: vec
  h_strategy :: string
  h_scores :: "(string \<times> real) list"
  h_sampled_theta :: "(string \<times> vec) list"

text \<open>The dicts \<open>mu\<close>, \<open>Sigma\<close> and \<open>Sigma_inv\<close> are maps from the strategy name.\<close>

record CMAB =
  n_features :: nat
  n_arms :: nat
  strategies :: "string list"
  mu :: "string \<rightharpoonup> vec"
  Sigma :: "string \<rightharpoonup> mat"
  Sigma_inv :: "string \<rightharpoonup> mat"
  history :: "history_entry list"
  selected_strategy :: "string option"

text \<open>\<open>CMAB.__init__(n_features=4, n_arms=4)\<close>.\<close>

definition CMAB_init :: "nat \<Rightarrow> nat \<Rightarrow> CMAB" where
  "CMAB_init nf na =
     \<lparr>n_features = nf, n_arms = na, strategies = CMAB_STRATEGIES_values,
      mu = (\<lambda>s. if s \<in> set CMAB_STRATEGIES_values then Some (np_zeros nf) else None),
      Sigma = (\<lambda>s. if s \<in> set CMAB_STRATEGIES_values then Some (np_eye nf) else None),
      Sigma_inv = (\<lambda>s. if s \<in> set CMAB_STRATEGIES_values then Some (np_eye nf) else None),
      history = [], selected_strategy = None\<rparr>"

text \<open>
  The sampling loop of \<open>select_strategy\<close>. The random draw is an input: \<open>draw s\<close> is the
  vector \<open>np.random.multivariate_normal\<close> returns for arm \<open>s\<close> in this call. The dicts
  \<open>scores\<close> and \<open>sampled_theta\<close> keep insertion order.
\<close>

fun sample_loop ::
  "CMAB \<Rightarrow> vec \<Rightarrow> (string \<Rightarrow> vec) \<Rightarrow> string list \<Rightarrow> (string \<times> real) list \<Rightarrow> (string \<times> vec) list
   \<Rightarrow> py_error + ((string \<times> real) list \<times> (string \<times> vec) list)"
where
  "sample_loop self context draw [] scores sampled_theta = Inr (scores, sampled_theta)"
| "sample_loop self context draw (strategy # rest) scores sampled_theta =
     (if mu self strategy = None \<or> Sigma self strategy = None then Inl KeyError
      else let theta = draw strategy
           in case vec_dot context theta of
                None \<Rightarrow> Inl ValueError
              | Some score \<Rightarrow>
                  sample_loop self context draw rest
                    (AList.update strategy score scores)
                    (AList.update strategy theta sampled_theta))"

text \<open>
  \<open>max(scores, key=scores.get)\<close>: the first key, in dict order, whose score is maximal;
  \<open>ValueError\<close> on an empty dict.
\<close>

fun max_by_score :: "(string \<times> real) list \<Rightarrow> string option" where
  "max_by_score [] = None"
| "max_by_score (kv # rest) =
     Some (fst (fold (\<lambda>cand best. if snd cand > snd best then cand else best) rest kv))"

definition select_strategy ::
  "CMAB \<Rightarrow> vec \<Rightarrow> (string \<Rightarrow> vec) \<Rightarrow> (py_error + string) \<times> CMAB" where
  "select_strategy self context draw =
     (case sample_loop self context draw (strategies self) [] [] of
        Inl err \<Rightarrow> (Inl err, self)
      | Inr (scores, sampled_theta) \<Rightarrow>
          (case max_by_score scores of
             None \<Rightarrow> (Inl ValueError, self)
           | Some best \<Rightarrow>
               (Inr best,
                self\<lparr>selected_strategy := Some best,
                     history := history self @
                       [\<lparr>h_context = context, h_strategy = best, h_scores = scores,
                         h_sampled_theta = sampled_theta\<rparr>]\<rparr>)))"

text \<open>
  \<open>CMAB.update(context, reward, noise_var=1.0)\<close>, statement by statement. The result is
  the exception raised, if any, and the object as the call leaves it: the assignments to
  \<open>Sigma_inv[strategy]\<close> and \<open>Sigma[strategy]\<close> made before a later statement raises
  stay. Note that the last statement reads \<open>self.Sigma_inv[strategy]\<close> after the first
  has assigned it.
\<close>

definition update :: "CMAB \<Rightarrow> vec \<Rightarrow> real \<Rightarrow> real \<Rightarrow> py_error option \<times> CMAB" where
  "update self context reward noise_var =
     (case selected_strategy self of
        None \<Rightarrow> (None, self)
      | Some strategy \<Rightarrow>
          (case Sigma_inv self strategy of
             None \<Rightarrow> (Some KeyError, self)
           | Some precision_old \<Rightarrow>
               if noise_var = 0 then (Some ZeroDivisionError, self)
               else
                 (case mat_add precision_old (mat_scale (1 / noise_var) (outer context context)) of
                    None \<Rightarrow> (Some ValueError, self)
                  | Some precision_new \<Rightarrow>
                      (let self1 = self\<lparr>Sigma_inv := (Sigma_inv self)(strategy \<mapsto> precision_new)\<rparr>
                       in case linalg_inv precision_new of
                            None \<Rightarrow> (Some LinAlgError, self1)
                          | Some covariance_new \<Rightarrow>
                              (let self2 = self1\<lparr>Sigma := (Sigma self1)(strategy \<mapsto> covariance_new)\<rparr>
                               in case mu self2 strategy of
                                    None \<Rightarrow> (Some KeyError, self2)
                                  | Some mu_old \<Rightarrow>
                                      (case mat_vec precision_new mu_old of
                                         None \<Rightarrow> (Some ValueError, self2)
                                       | Some weighted \<Rightarrow>
                                           (case vec_add weighted
                                                   (vec_scale reward (vec_scale (1 / noise_var) context)) of
                                              None \<Rightarrow> (Some ValueError, self2)
                                            | Some rhs \<Rightarrow>
                                                (case mat_vec covariance_new rhs of
                                                   None \<Rightarrow> (Some ValueError, self2)
                                                 | Some mu_new \<Rightarrow>
                                                     (None, self2\<lparr>mu := (mu self2)(strategy \<mapsto> mu_new)\<rparr>)))))))))"

section \<open>EM: the event manager\<close>

record Event =
  ev_entity_id :: string
  ev_metric :: string
  event_type :: string
  severity :: real
  timestamp :: real
  details :: "(string \<times> real) list"

text \<open>
  \<open>EventManager\<close> without its reference to the ESM, which the methods take as an
  argument. \<open>events\<close> is a \<open>deque(maxlen=10000)\<close>; \<open>measurement_history\<close> is a
  \<open>defaultdict\<close> of \<open>deque(maxlen=100)\<close>, a total function whose default is the empty
  deque; the three \<open>defaultdict(int)\<close> of \<open>stats\<close> are total functions with default 0.
\<close>

record EventManager =
  events :: "Event list"
  recent_events :: "Event list"
  event_triggers :: "state_key \<rightharpoonup> real"
  measurement_history :: "state_key \<Rightarrow> real list"
  total_events :: nat
  events_by_type :: "string \<Rightarrow> nat"
  events_by_entity :: "string \<Rightarrow> nat"
  events_by_metric :: "string \<Rightarrow> nat"
  core_entities :: "string set"

definition EventManager_init :: EventManager where
  "EventManager_init =
     \<lparr>events = [], recent_events = [], event_triggers = Map.empty,
      measurement_history = (\<lambda>_. []), total_events = 0, events_by_type = (\<lambda>_. 0),
      events_by_entity = (\<lambda>_. 0), events_by_metric = (\<lambda>_. 0), core_entities = {}\<rparr>"

definition add_core_entity :: "EventManager \<Rightarrow> string \<Rightarrow> EventManager" where
  "add_core_entity self entity_id = self\<lparr>core_entities := insert entity_id (core_entities self)\<rparr>"

text \<open>\<open>append\<close> on a \<open>deque\<close> with \<open>maxlen\<close>: the oldest entries fall out on the left.\<close>

definition deque_append :: "nat \<Rightarrow> 'a list \<Rightarrow> 'a \<Rightarrow> 'a list" where
  "deque_append maxlen d x = (let d' = d @ [x] in drop (length d' - maxlen) d')"

definition np_mean :: "real list \<Rightarrow> real" where
  "np_mean xs = sum_list xs / real (length xs)"

definition np_std :: "real list \<Rightarrow> real" where
  "np_std xs = sqrt (np_mean (map (\<lambda>x. (x - np_mean xs)\<^sup>2) xs))"

text \<open>
  \<open>_detect_anomalies\<close>. The clock reading \<open>now\<close> is what \<open>time.time()\<close> returns during
  the pass; it stamps the events. The result is the list \<open>events\<close> and the manager with
  its measurement history extended.
\<close>

definition detect_anomalies ::
  "real \<Rightarrow> EventManager \<Rightarrow> string \<Rightarrow> string \<Rightarrow> EntityState \<Rightarrow> Event list \<times> EventManager" where
  "detect_anomalies now self entity_id metric state =
     (if metric = METRICS_LIVENESS then
        (let p_up = get_confidence state
         in if p_up < liveness_threshold
            then ([\<lparr>ev_entity_id = entity_id, ev_metric = metric, event_type = ''liveness_low'',
                     severity = 1 - p_up, timestamp = now, details = [(''p_up'', p_up)]\<rparr>], self)
            else ([], self))
      else
        (let stability = get_stability state;
             events1 =
               (if stability > stability_threshold / max_stability
                then [\<lparr>ev_entity_id = entity_id, ev_metric = metric,
                        event_type = ''high_instability'', severity = min stability 1,
                        timestamp = now, details = [(''stability'', stability)]\<rparr>]
                else [])
         in case distribution_mu state of
              None \<Rightarrow> (events1, self)
            | Some current_value \<Rightarrow>
                (let history_key = (entity_id, metric);
                     self1 = self\<lparr>measurement_history :=
                               (measurement_history self)
                                 (history_key :=
                                    deque_append 100 (measurement_history self history_key)
                                      current_value)\<rparr>;
                     history = measurement_history self1 history_key
                 in if length history \<ge> 10 then
                      (let hist_mean = np_mean (butlast history);
                           hist_std = np_std (butlast history)
                       in if hist_std > 0 then
                            (if metric = METRICS_RTT then
                               (let threshold = rtt_spike_factor * hist_std
                                in if \<bar>current_value - hist_mean\<bar> > threshold
                                   then (events1 @
                                           [\<lparr>ev_entity_id = entity_id, ev_metric = metric,
                                             event_type = ''rtt_spike'',
                                             severity =
                                               min (\<bar>current_value - hist_mean\<bar> / (5 * hist_std)) 1,
                                             timestamp = now,
                                             details =
                                               [(''current'', current_value),
                                                (''historical_mean'', hist_mean),
                                                (''deviation'', \<bar>current_value - hist_mean\<bar>)]\<rparr>],
                                         self1)
                                   else (events1, self1))
                             else (events1, self1))
                          else (events1, self1))
                    else (events1, self1))))"

definition add_event :: "EventManager \<Rightarrow> Event \<Rightarrow> EventManager" where
  "add_event self event =
     self\<lparr>events := deque_append 10000 (events self) event,
          recent_events := recent_events self @ [event],
          total_events := total_events self + 1,
          events_by_type := (events_by_type self)
             (event_type event := events_by_type self (event_type event) + 1),
          events_by_entity := (events_by_entity self)
             (ev_entity_id event := events_by_entity self (ev_entity_id event) + 1),
          events_by_metric := (events_by_metric self)
             (ev_metric event := events_by_metric self (ev_metric event) + 1)\<rparr>"

definition clean_recent_events :: "EventManager \<Rightarrow> real \<Rightarrow> EventManager" where
  "clean_recent_events self current_time =
     (let cutoff_time = current_time - sliding_window
      in self\<lparr>recent_events := dropWhile (\<lambda>e. timestamp e < cutoff_time) (recent_events self)\<rparr>)"

text \<open>The body of the loop over the events of one \<open>(entity_id, metric)\<close>.\<close>

definition fire_event :: "string \<Rightarrow> string \<Rightarrow> Event \<Rightarrow> EventManager \<Rightarrow> EventManager" where
  "fire_event entity_id metric event self =
     (let self1 = add_event self event;
          self2 = self1\<lparr>event_triggers := (event_triggers self1)((entity_id, metric) \<mapsto> 1)\<rparr>
      in if entity_id \<in> core_entities self2 \<and> metric = METRICS_RTT
         then fold (\<lambda>other_metric s.
                      s\<lparr>event_triggers := (event_triggers s)((entity_id, other_metric) \<mapsto> 1)\<rparr>)
                   [METRICS_PLR, METRICS_BANDWIDTH] self2
         else self2)"

fun detect_loop :: "real \<Rightarrow> (state_key \<times> EntityState) list \<Rightarrow> EventManager \<Rightarrow> EventManager" where
  "detect_loop now [] self = self"
| "detect_loop now (((entity_id, metric), state) # items) self =
     (case detect_anomalies now self entity_id metric state of
        (evs, self1) \<Rightarrow> detect_loop now items (fold (fire_event entity_id metric) evs self1))"

definition check_and_detect_events :: "real \<Rightarrow> EventManager \<Rightarrow> ESM \<Rightarrow> EventManager" where
  "check_and_detect_events now self esm =
     (let current_time = now;
          self1 = clean_recent_events self current_time;
          self2 = self1\<lparr>event_triggers := Map.empty\<rparr>
      in detect_loop now (state_table esm) self2)"

definition get_event_trigger :: "EventManager \<Rightarrow> string \<Rightarrow> string \<Rightarrow> real" where
  "get_event_trigger self entity_id metric =
     (case event_triggers self (entity_id, metric) of None \<Rightarrow> 0 | Some v \<Rightarrow> v)"

definition get_num_recent_events_normalized :: "EventManager \<Rightarrow> real" where
  "get_num_recent_events_normalized self =
     min (real (length (recent_events self)) / max_recent_events) 1"

section \<open>PRIO: the priority engine\<close>

text \<open>
  Modelled from the spec: the \<open>Task\<close> of \<^verbatim>\<open>modules/uq.py\<close>, which is missing: "immutable
  identity \<open>(entity_id, metric)\<close> plus a mutable cached \<open>eig\<close>"; and the task pool of
  \<open>UncertaintyQuantifier\<close>, a list of tasks.
\<close>

record Task =
  entity_id :: string
  metric :: string
  eig :: real

record UncertaintyQuantifier =
  task_pool :: "Task list"

record components =
  c_eig :: real
  c_urgency :: real
  c_policy_match :: real
  c_event_trig :: real

record task_priority =
  task :: Task
  priority :: real
  components :: components

record PRIO =
  weights :: priority_weights

text \<open>\<open>PRIO.__init__(weights=None)\<close>.\<close>

definition PRIO_init :: "priority_weights option \<Rightarrow> PRIO" where
  "PRIO_init w = \<lparr>weights = (case w of None \<Rightarrow> APS_priority_weights | Some w' \<Rightarrow> w')\<rparr>"

text \<open>
  \<open>calculate_policy_match\<close>. The test \<open>if not state\<close> succeeds on \<open>None\<close> only: a state
  object is true.
\<close>

definition calculate_policy_match :: "PRIO \<Rightarrow> Task \<Rightarrow> string \<Rightarrow> ESM \<Rightarrow> bool \<Rightarrow> real" where
  "calculate_policy_match self task0 selected esm event_triggered =
     (case get_state esm (entity_id task0) (metric task0) of
        None \<Rightarrow> 0
      | Some state \<Rightarrow>
          if selected = FOCUS_UNCERTAINTY then
            (let uncertainty = get_uncertainty state in uncertainty / max_uncertainty)
          else if selected = HIGHFREQ_UNSTABLE then
            (let stability = get_stability state in stability)
          else if selected = COVERAGE_BALANCER then 1
          else if selected = EVENT_TRIGGER then (if event_triggered then 1 else 0)
          else 0)"

definition calculate_priority :: "PRIO \<Rightarrow> Task \<Rightarrow> real \<Rightarrow> real \<Rightarrow> real \<Rightarrow> real \<Rightarrow> real" where
  "calculate_priority self task0 eig0 urgency policy_match event_trig =
     w_eig (weights self) * eig0 + w_urgency (weights self) * urgency
       + w_policy_match (weights self) * policy_match + w_event_trig (weights self) * event_trig"

text \<open>The loop of \<open>select_top_k\<close> that fills \<open>task_priorities\<close>, in the order of the pool.\<close>

fun score_pool ::
  "PRIO \<Rightarrow> Task list \<Rightarrow> ESM \<Rightarrow> EventManager option \<Rightarrow> string \<Rightarrow> task_priority list" where
  "score_pool self [] esm em selected = []"
| "score_pool self (task0 # rest) esm em selected =
     (case get_state esm (entity_id task0) (metric task0) of
        None \<Rightarrow> score_pool self rest esm em selected
      | Some state \<Rightarrow>
          (let eig0 = eig task0;
               urgency = get_urgency state;
               event_trig =
                 (case em of None \<Rightarrow> 0
                  | Some em' \<Rightarrow> get_event_trigger em' (entity_id task0) (metric task0));
               policy_match = calculate_policy_match self task0 selected esm (event_trig > 0);
               priority0 = calculate_priority self task0 eig0 urgency policy_match event_trig
           in \<lparr>task = task0, priority = priority0,
               components = \<lparr>c_eig = eig0, c_urgency = urgency, c_policy_match = policy_match,
                             c_event_trig = event_trig\<rparr>\<rparr>
              # score_pool self rest esm em selected))"

text \<open>
  \<open>list.sort(key=..., reverse=True)\<close> is a stable sort into descending key order: entries
  with equal keys keep their relative order. \<open>sort_key\<close> is a stable ascending sort, here
  on the negated key.
\<close>

definition sort_reverse :: "('a \<Rightarrow> real) \<Rightarrow> 'a list \<Rightarrow> 'a list" where
  "sort_reverse key xs = sort_key (\<lambda>x. - key x) xs"

text \<open>The slice \<open>xs[:k]\<close>; a negative \<open>k\<close> counts from the end.\<close>

definition slice_to :: "int \<Rightarrow> 'a list \<Rightarrow> 'a list" where
  "slice_to k xs = (if 0 \<le> k then take (nat k) xs else take (length xs - nat (- k)) xs)"

definition select_top_k ::
  "PRIO \<Rightarrow> Task list \<Rightarrow> ESM \<Rightarrow> EventManager option \<Rightarrow> string \<Rightarrow> int \<Rightarrow> task_priority list" where
  "select_top_k self pool esm em selected k =
     (let task_priorities = score_pool self pool esm em selected;
          task_priorities = sort_reverse priority task_priorities
      in slice_to k task_priorities)"

section \<open>APS: the scheduler\<close>

text \<open>
  Modelled from the spec: \<open>ESM.get_context_vector\<close> (\<^verbatim>\<open>modules/esm.py\<close> is missing),
  "\<open>(u_mean, s_mean, urgency_mean, event_rate)\<close> where each component is a population mean
  over all states": the mean of \<open>U / max_uncertainty\<close>, of \<open>S / max_stability\<close> and of the
  urgency, and \<open>min(num_recent_events / max_recent_events, 1)\<close> read from the event
  manager. The spec is silent on an empty table and on a missing event manager; the
  components are 0 there.
\<close>

definition population_mean :: "(EntityState \<Rightarrow> real) \<Rightarrow> EntityState list \<Rightarrow> real" where
  "population_mean f states =
     (if states = [] then 0 else sum_list (map f states) / real (length states))"

definition get_context_vector :: "ESM \<Rightarrow> EventManager option \<Rightarrow> vec" where
  "get_context_vector esm em =
     (let states = map snd (state_table esm)
      in [population_mean (\<lambda>s. get_uncertainty s / max_uncertainty) states,
          population_mean (\<lambda>s. get_stability s / max_stability) states,
          population_mean get_urgency states,
          (case em of None \<Rightarrow> 0 | Some em' \<Rightarrow> get_num_recent_events_normalized em')])"

record aps_stats =
  total_rounds :: nat
  total_tasks_selected :: nat
  strategy_history :: "string list"

record ActiveProbingScheduler =
  aps_esm :: ESM
  aps_uq :: UncertaintyQuantifier
  aps_em :: "EventManager option"
  aps_cmab :: CMAB
  aps_ctlc :: CTLC
  aps_prio :: PRIO
  aps_stats :: aps_stats

definition ActiveProbingScheduler_init ::
  "ESM \<Rightarrow> UncertaintyQuantifier \<Rightarrow> EventManager option \<Rightarrow> ActiveProbingScheduler" where
  "ActiveProbingScheduler_init esm0 uq0 em0 =
     \<lparr>aps_esm = esm0, aps_uq = uq0, aps_em = em0, aps_cmab = CMAB_init 4 4,
      aps_ctlc = CTLC_init kp target_stability, aps_prio = PRIO_init None,
      aps_stats = \<lparr>total_rounds = 0, total_tasks_selected = 0, strategy_history = []\<rparr>\<rparr>"

record selection =
  tasks :: "task_priority list"
  strategy :: string
  context_list :: vec
  interval_adjustments :: "adjustment list"

text \<open>
  \<open>select_tasks(k=None)\<close>; \<open>draw\<close> is the random draw of this round's
  \<open>select_strategy\<close>. An exception of \<open>select_strategy\<close> leaves the scheduler as it was.
\<close>

definition select_tasks ::
  "ActiveProbingScheduler \<Rightarrow> int option \<Rightarrow> (string \<Rightarrow> vec)
   \<Rightarrow> (py_error + selection) \<times> ActiveProbingScheduler" where
  "select_tasks self k0 draw =
     (let k = (case k0 of None \<Rightarrow> top_k | Some k' \<Rightarrow> k');
          context0 = get_context_vector (aps_esm self) (aps_em self)
      in case select_strategy (aps_cmab self) context0 draw of
           (Inl err, cmab1) \<Rightarrow> (Inl err, self\<lparr>aps_cmab := cmab1\<rparr>)
         | (Inr selected, cmab1) \<Rightarrow>
             (case batch_adjust (aps_ctlc self) (aps_esm self) of
                (esm1, adjustments) \<Rightarrow>
                  (let selected_tasks =
                         select_top_k (aps_prio self) (task_pool (aps_uq self)) esm1 (aps_em self) selected k;
                       stats1 = (aps_stats self)
                         \<lparr>total_rounds := total_rounds (aps_stats self) + 1,
                          total_tasks_selected :=
                            total_tasks_selected (aps_stats self) + length selected_tasks,
                          strategy_history := strategy_history (aps_stats self) @ [selected]\<rparr>
                   in (Inr \<lparr>tasks = selected_tasks, strategy = selected, context_list = context0,
                            interval_adjustments = adjustments\<rparr>,
                       self\<lparr>aps_cmab := cmab1, aps_esm := esm1, aps_stats := stats1\<rparr>))))"

text \<open>\<open>update_reward\<close>, called by the result fusion unit with the round's reward.\<close>

definition update_reward ::
  "ActiveProbingScheduler \<Rightarrow> real \<Rightarrow> py_error option \<times> ActiveProbingScheduler" where
  "update_reward self reward =
     (let context0 = get_context_vector (aps_esm self) (aps_em self)
      in case update (aps_cmab self) context0 reward 1 of
           (err, cmab1) \<Rightarrow> (err, self\<lparr>aps_cmab := cmab1\<rparr>))"

section \<open>Auxiliary notions for the statements\<close>

text \<open>What the sweep does to one entry of the table.\<close>

definition swept :: "CTLC \<Rightarrow> state_key \<times> EntityState \<Rightarrow> state_key \<times> EntityState" where
  "swept self =
     (\<lambda>(key, state).
        (key, state\<lparr>probe_interval :=
                 adjust_probe_interval self (probe_interval state) (get_stability state)\<rparr>))"

text \<open>
  The posterior mean as the spec writes it,
  \<open>\<Sigma>_new \<sqdot> (\<Lambda>_old \<sqdot> \<mu>_old + (1/\<nu>) c \<sqdot> r)\<close> with \<open>\<Lambda>_new = \<Lambda>_old + (1/\<nu>) c c\<^sup>T\<close> and
  \<open>\<Sigma>_new = \<Lambda>_new\<^sup>-\<^sup>1\<close>; \<open>None\<close> where an operation is undefined.
\<close>

definition spec_posterior_mean :: "mat \<Rightarrow> vec \<Rightarrow> vec \<Rightarrow> real \<Rightarrow> real \<Rightarrow> vec option" where
  "spec_posterior_mean precision_old mu_old c r nv =
     (case mat_add precision_old (mat_scale (1 / nv) (outer c c)) of
        None \<Rightarrow> None
      | Some precision_new \<Rightarrow>
          (case linalg_inv precision_new of
             None \<Rightarrow> None
           | Some covariance_new \<Rightarrow>
               (case mat_vec precision_old mu_old of
                  None \<Rightarrow> None
                | Some weighted \<Rightarrow>
                    (case vec_add weighted (vec_scale r (vec_scale (1 / nv) c)) of
                       None \<Rightarrow> None
                     | Some rhs \<Rightarrow> mat_vec covariance_new rhs))))"

text \<open>
  The events a detection pass fires: those it appends to \<open>recent_events\<close>, after the
  cleaning of the window that opens the pass.
\<close>

definition pass_events :: "real \<Rightarrow> EventManager \<Rightarrow> ESM \<Rightarrow> Event list" where
  "pass_events now self esm =
     drop (length (recent_events (clean_recent_events self now)))
          (recent_events (check_and_detect_events now self esm))"

text \<open>
  The pairs a list of fired events raises a trigger on: the pair of each event, and for a
  core entity with an event on \<open>rtt\<close> its \<open>plr\<close> and \<open>bandwidth\<close>.
\<close>

definition triggered :: "string set \<Rightarrow> Event list \<Rightarrow> string \<Rightarrow> string \<Rightarrow> bool" where
  "triggered core evs e m \<longleftrightarrow>
     (\<exists>ev \<in> set evs. ev_entity_id ev = e \<and> ev_metric ev = m)
     \<or> (e \<in> core \<and> (m = METRICS_PLR \<or> m = METRICS_BANDWIDTH)
        \<and> (\<exists>ev \<in> set evs. ev_entity_id ev = e \<and> ev_metric ev = METRICS_RTT))"

text \<open>
  The order the spec describes for the ranking: descending priority, ties broken by
  descending EIG, then by \<open>entity_id\<close> in lexicographic order.
\<close>

definition spec_ranked_before :: "task_priority \<Rightarrow> task_priority \<Rightarrow> bool" where
  "spec_ranked_before x y \<longleftrightarrow>
     priority x > priority y
     \<or> (priority x = priority y
        \<and> (eig (task x) > eig (task y)
           \<or> (eig (task x) = eig (task y) \<and> entity_id (task x) \<le> entity_id (task y))))"

subsection \<open>A small network for the worked examples\<close>

definition L1 :: string where "L1 = ''1-1:2-1''"
definition L2 :: string where "L2 = ''1-2:3-1''"
definition L3 :: string where "L3 = ''2-2:3-2''"

text \<open>A state nothing is known about yet: maximal uncertainty, no variance, not overdue.\<close>

definition fresh_state :: EntityState where
  "fresh_state =
     \<lparr>probe_interval = 10, get_stability = 0, get_uncertainty = 2, get_urgency = 0,
      get_confidence = 1 / 2, distribution_mu = Some 10\<rparr>"

definition net_esm :: ESM where
  "net_esm =
     \<lparr>state_table =
        [((L1, METRICS_RTT), fresh_state), ((L2, METRICS_RTT), fresh_state),
         ((L3, METRICS_RTT), fresh_state)]\<rparr>"

text \<open>
  Two task pools over it: one with distinct gains and a task whose pair has no state,
  and one whose three tasks tie in every component.
\<close>

definition ranked_pool :: "Task list" where
  "ranked_pool =
     [\<lparr>entity_id = L1, metric = METRICS_RTT, eig = 1 / 10\<rparr>,
      \<lparr>entity_id = L2, metric = METRICS_RTT, eig = 3 / 10\<rparr>,
      \<lparr>entity_id = L3, metric = METRICS_RTT, eig = 2 / 10\<rparr>,
      \<lparr>entity_id = ''9-9:9-9'', metric = METRICS_RTT, eig = 1\<rparr>]"

definition tied_pool :: "Task list" where
  "tied_pool =
     [\<lparr>entity_id = L2, metric = METRICS_RTT, eig = 1 / 2\<rparr>,
      \<lparr>entity_id = L1, metric = METRICS_RTT, eig = 1 / 2\<rparr>,
      \<lparr>entity_id = L3, metric = METRICS_RTT, eig = 1 / 2\<rparr>]"

text \<open>The scheduler \<open>ActiveProbingScheduler(esm, uq)\<close> over this network, without event manager.\<close>

definition net_aps :: ActiveProbingScheduler where
  "net_aps = ActiveProbingScheduler_init net_esm \<lparr>task_pool = ranked_pool\<rparr> None"

text \<open>A draw of the sampler that favours the first arm on the context \<open>[1, 0, 0, 0]\<close>.\<close>

definition focus_draw :: "string \<Rightarrow> vec" where
  "focus_draw s = (if s = FOCUS_UNCERTAINTY then [1, 0, 0, 0] else [0, 0, 0, 0])"

text \<open>The bandit after its first selection, and after the first reward.\<close>

definition cmab_selected :: CMAB where
  "cmab_selected = snd (select_strategy (CMAB_init 4 4) [1, 0, 0, 0] focus_draw)"

definition cmab_rewarded :: CMAB where
  "cmab_rewarded = snd (update cmab_selected [1, 0, 0, 0] 1 1)"

text \<open>
  The network after the sweep of the first round, and the two tasks that round selects
  from \<open>ranked_pool\<close> with \<open>k = 2\<close>.
\<close>

definition swept_esm :: ESM where
  "swept_esm =
     \<lparr>state_table =
        [((L1, METRICS_RTT), fresh_state\<lparr>probe_interval := 11\<rparr>),
         ((L2, METRICS_RTT), fresh_state\<lparr>probe_interval := 11\<rparr>),
         ((L3, METRICS_RTT), fresh_state\<lparr>probe_interval := 11\<rparr>)]\<rparr>"

definition top2_sel :: "task_priority list" where
  "top2_sel =
     [\<lparr>task = \<lparr>entity_id = L2, metric = METRICS_RTT, eig = 3 / 10\<rparr>, priority = 8 / 25,
       components = \<lparr>c_eig = 3 / 10, c_urgency = 0, c_policy_match = 1, c_event_trig = 0\<rparr>\<rparr>,
      \<lparr>task = \<lparr>entity_id = L3, metric = METRICS_RTT, eig = 2 / 10\<rparr>, priority = 7 / 25,
       components = \<lparr>c_eig = 2 / 10, c_urgency = 0, c_policy_match = 1, c_event_trig = 0\<rparr>\<rparr>]"

text \<open>The three tasks of \<open>tied_pool\<close> scored under \<open>coverage_balancer\<close>, in pool order.\<close>

definition tied_scores :: "task_priority list" where
  "tied_scores =
     [\<lparr>task = \<lparr>entity_id = L2, metric = METRICS_RTT, eig = 1 / 2\<rparr>, priority = 2 / 5,
       components = \<lparr>c_eig = 1 / 2, c_urgency = 0, c_policy_match = 1, c_event_trig = 0\<rparr>\<rparr>,
      \<lparr>task = \<lparr>entity_id = L1, metric = METRICS_RTT, eig = 1 / 2\<rparr>, priority = 2 / 5,
       components = \<lparr>c_eig = 1 / 2, c_urgency = 0, c_policy_match = 1, c_event_trig = 0\<rparr>\<rparr>,
      \<lparr>task = \<lparr>entity_id = L3, metric = METRICS_RTT, eig = 1 / 2\<rparr>, priority = 2 / 5,
       components = \<lparr>c_eig = 1 / 2, c_urgency = 0, c_policy_match = 1, c_event_trig = 0\<rparr>\<rparr>]"


text \<open>
  The network after the measurements of the first round have been folded in: the two
  states that were probed are less uncertain. The scheduler after the selection of that
  round, and the same scheduler over the measured network, as \<open>update_reward\<close> finds it.
\<close>

definition measured_esm :: ESM where
  "measured_esm =
     \<lparr>state_table =
        [((L1, METRICS_RTT), fresh_state\<lparr>probe_interval := 11\<rparr>),
         ((L2, METRICS_RTT), fresh_state\<lparr>probe_interval := 11, get_uncertainty := 1\<rparr>),
         ((L3, METRICS_RTT), fresh_state\<lparr>probe_interval := 11, get_uncertainty := 0\<rparr>)]\<rparr>"

definition net_aps_selected :: ActiveProbingScheduler where
  "net_aps_selected = snd (select_tasks net_aps (Some 2) focus_draw)"

definition net_aps_measured :: ActiveProbingScheduler where
  "net_aps_measured = net_aps_selected\<lparr>aps_esm := measured_esm\<rparr>"

text \<open>
  An unstable \<open>rtt\<close> state on \<open>L1\<close> and a healthy liveness state on \<open>L2\<close>; an event
  manager with \<open>L1\<close> as core entity that still holds a trigger on \<open>(L2, plr)\<close> from an
  earlier pass; and the event the next pass, at clock reading 100, fires.
\<close>

definition watch_esm :: ESM where
  "watch_esm =
     \<lparr>state_table =
        [((L1, METRICS_RTT), fresh_state\<lparr>get_stability := 1, distribution_mu := None\<rparr>),
         ((L2, METRICS_LIVENESS),
          fresh_state\<lparr>get_confidence := 9 / 10, distribution_mu := None\<rparr>)]\<rparr>"

definition stale_em :: EventManager where
  "stale_em =
     (add_core_entity EventManager_init L1)\<lparr>event_triggers := [(L2, METRICS_PLR) \<mapsto> 1]\<rparr>"

definition instability_event :: Event where
  "instability_event =
     \<lparr>ev_entity_id = L1, ev_metric = METRICS_RTT, event_type = ''high_instability'',
      severity = 1, timestamp = 100, details = [(''stability'', 1)]\<rparr>"

section \<open>CTLC: the clamp and the sweep\<close>

lemma adjust_in_range:
  "min_interval self \<le> max_interval self \<Longrightarrow>
   min_interval self \<le> adjust_probe_interval self T S
   \<and> adjust_probe_interval self T S \<le> max_interval self"
  by (simp add: adjust_probe_interval_def Let_def)

lemma clamp_id: "lo \<le> x \<Longrightarrow> x \<le> hi \<Longrightarrow> clamp x lo hi = x"
  by (simp add: clamp_def)

lemma set_probe_interval_at:
  "(eid, met) \<notin> fst ` set done \<Longrightarrow> (eid, met) \<notin> fst ` set items \<Longrightarrow>
   state_table esm = done @ ((eid, met), state) # items \<Longrightarrow>
   state_table (set_probe_interval esm eid met T) =
     done @ ((eid, met),
             state\<lparr>probe_interval := clamp T probe_interval_min probe_interval_max\<rparr>) # items"
  by (force simp: set_probe_interval_def intro!: map_idI)

lemma batch_adjust_loop_table:
  "distinct (map fst (done @ items)) \<Longrightarrow> state_table esm = done @ items \<Longrightarrow>
   min_interval self = probe_interval_min \<Longrightarrow> max_interval self = probe_interval_max \<Longrightarrow>
   state_table (fst (batch_adjust_loop self items esm adjustments)) = done @ map (swept self) items"
proof (induction items arbitrary: esm adjustments "done")
  case Nil
  then show ?case by simp
next
  case (Cons item items)
  obtain eid met state where item: "item = ((eid, met), state)"
    by (cases item) auto
  let ?new = "adjust_probe_interval self (probe_interval state) (get_stability state)"
  have range: "probe_interval_min \<le> ?new \<and> ?new \<le> probe_interval_max"
    using adjust_in_range[of self] Cons.prems(3,4)
    by (simp add: probe_interval_min_def probe_interval_max_def)
  have notin: "(eid, met) \<notin> fst ` set done" "(eid, met) \<notin> fst ` set items"
    using Cons.prems(1) item by auto
  show ?case
  proof (cases "?new = probe_interval state")
    case True
    have "state_table (fst (batch_adjust_loop self items esm adjustments)) =
            (done @ [item]) @ map (swept self) items"
      using Cons.prems by (intro Cons.IH) auto
    moreover have "swept self item = item"
      using True item by (simp add: swept_def)
    ultimately show ?thesis using True item by (simp add: Let_def)
  next
    case False
    let ?esm = "set_probe_interval esm eid met ?new"
    have tbl: "state_table ?esm = (done @ [swept self item]) @ items"
      using set_probe_interval_at[OF notin, of esm state ?new] Cons.prems(2) item range
      by (simp add: swept_def clamp_id)
    have "distinct (map fst ((done @ [swept self item]) @ items))"
      using Cons.prems(1) item by (simp add: swept_def)
    from Cons.IH[OF this tbl Cons.prems(3,4)]
    show ?thesis using False item by (simp add: Let_def)
  qed
qed

lemma batch_adjust_loop_adjustments:
  "min_interval self \<le> max_interval self \<Longrightarrow>
   \<forall>a \<in> set adjustments. min_interval self \<le> new_interval a \<and> new_interval a \<le> max_interval self \<Longrightarrow>
   \<forall>a \<in> set (snd (batch_adjust_loop self items esm adjustments)).
      min_interval self \<le> new_interval a \<and> new_interval a \<le> max_interval self"
proof (induction items arbitrary: esm adjustments)
  case Nil
  then show ?case by simp
next
  case (Cons item items)
  obtain eid met state where item: "item = ((eid, met), state)"
    by (cases item) auto
  let ?new = "adjust_probe_interval self (probe_interval state) (get_stability state)"
  let ?a = "\<lparr>adj_entity_id = eid, adj_metric = met, old_interval = probe_interval state,
             new_interval = ?new, adj_stability = get_stability state\<rparr>"
  have "\<forall>a \<in> set (adjustments @ [?a]).
          min_interval self \<le> new_interval a \<and> new_interval a \<le> max_interval self"
    using Cons.prems adjust_in_range[of self] by simp
  from Cons.IH[OF Cons.prems(1) this] Cons.IH[OF Cons.prems]
  show ?case unfolding item by (simp add: Let_def)
qed

lemma batch_adjust_table:
  "distinct (map fst (state_table esm)) \<Longrightarrow>
   state_table (fst (batch_adjust (CTLC_init kp0 target0) esm)) =
     map (swept (CTLC_init kp0 target0)) (state_table esm)"
  using batch_adjust_loop_table[of "[]" "state_table esm" esm "CTLC_init kp0 target0" "[]"]
  by (simp add: batch_adjust_def CTLC_init_def)

text \<open>
  C6. With the controller the scheduler builds (\<open>Kp = 0.1\<close>, \<open>S_target = 1.0\<close>,
  \<open>T_min = 1\<close>, \<open>T_max = 60\<close>), \<open>adjust_probe_interval\<close> returns
  \<open>clamp(T_old \<sqdot> (1 + Kp \<sqdot> (1 - S / S_target)), T_min, T_max)\<close> for every interval and
  every stability. Consequently, for a state table with distinct keys, every state's
  interval after a sweep of \<open>batch_adjust\<close> lies between 1 and 60, and so does every new
  interval the sweep hands to \<open>set_probe_interval\<close> and reports in its adjustments.
\<close>

theorem adjust_probe_interval_clamped:
  "adjust_probe_interval (CTLC_init kp target_stability) T S
     = clamp (T * (1 + (1 / 10) * (1 - S / 1))) 1 60
   \<and> (distinct (map fst (state_table esm0)) \<longrightarrow>
        (\<forall>entry \<in> set (state_table (fst (batch_adjust (CTLC_init kp target_stability) esm0))).
            1 \<le> probe_interval (snd entry) \<and> probe_interval (snd entry) \<le> 60)
        \<and> (\<forall>a \<in> set (snd (batch_adjust (CTLC_init kp target_stability) esm0)).
            1 \<le> new_interval a \<and> new_interval a \<le> 60))"
proof (intro conjI impI)
  let ?c = "CTLC_init kp target_stability"
  have bounds: "min_interval ?c = 1" "max_interval ?c = 60"
    by (simp_all add: CTLC_init_def probe_interval_min_def probe_interval_max_def)
  show "adjust_probe_interval ?c T S = clamp (T * (1 + (1 / 10) * (1 - S / 1))) 1 60"
    by (simp add: adjust_probe_interval_def CTLC_init_def kp_def target_stability_def
        probe_interval_min_def probe_interval_max_def clamp_def)
  show "\<forall>a \<in> set (snd (batch_adjust ?c esm0)). 1 \<le> new_interval a \<and> new_interval a \<le> 60"
    using batch_adjust_loop_adjustments[of ?c "[]" "state_table esm0" esm0] bounds
    by (simp add: batch_adjust_def)
  assume "distinct (map fst (state_table esm0))"
  then have "state_table (fst (batch_adjust ?c esm0)) = map (swept ?c) (state_table esm0)"
    by (rule batch_adjust_table)
  moreover have "1 \<le> probe_interval (snd (swept ?c e)) \<and> probe_interval (snd (swept ?c e)) \<le> 60"
    for e
    using adjust_in_range[of ?c] bounds by (cases e) (simp add: swept_def)
  ultimately show "\<forall>entry \<in> set (state_table (fst (batch_adjust ?c esm0))).
      1 \<le> probe_interval (snd entry) \<and> probe_interval (snd entry) \<le> 60"
    by auto
qed

text \<open>
  A sweep over two states: interval 10 at stability 2 becomes 9, and interval 100 at
  stability 0 is clamped to 60.
\<close>

theorem adjust_probe_interval_clamped_witness:
  "distinct (map fst (state_table
      \<lparr>state_table =
         [((''1-1:2-1'', ''rtt''),
           \<lparr>probe_interval = 10, get_stability = 2, get_uncertainty = 1, get_urgency = 0,
            get_confidence = 0, distribution_mu = Some 10\<rparr>),
          ((''1-1:2-1'', ''plr''),
           \<lparr>probe_interval = 100, get_stability = 0, get_uncertainty = 1, get_urgency = 0,
            get_confidence = 0, distribution_mu = Some 0\<rparr>)]\<rparr>))
   \<and> adjust_probe_interval (CTLC_init kp target_stability) 10 2 = 9
   \<and> map (probe_interval \<circ> snd) (state_table (fst (batch_adjust (CTLC_init kp target_stability)
      \<lparr>state_table =
         [((''1-1:2-1'', ''rtt''),
           \<lparr>probe_interval = 10, get_stability = 2, get_uncertainty = 1, get_urgency = 0,
            get_confidence = 0, distribution_mu = Some 10\<rparr>),
          ((''1-1:2-1'', ''plr''),
           \<lparr>probe_interval = 100, get_stability = 0, get_uncertainty = 1, get_urgency = 0,
            get_confidence = 0, distribution_mu = Some 0\<rparr>)]\<rparr>))) = [9, 60]"
proof -
  let ?esm = "\<lparr>state_table =
         [((''1-1:2-1'', ''rtt''),
           \<lparr>probe_interval = 10, get_stability = 2, get_uncertainty = 1, get_urgency = 0,
            get_confidence = 0, distribution_mu = Some 10\<rparr>),
          ((''1-1:2-1'', ''plr''),
           \<lparr>probe_interval = 100, get_stability = 0, get_uncertainty = 1, get_urgency = 0,
            get_confidence = 0, distribution_mu = Some 0\<rparr>)]\<rparr>"
  have d: "distinct (map fst (state_table ?esm))" by simp
  have a: "adjust_probe_interval (CTLC_init kp target_stability) 10 2 = 9"
    using adjust_probe_interval_clamped[of 10 2 ?esm] by (simp add: clamp_def)
  have b: "adjust_probe_interval (CTLC_init kp target_stability) 100 0 = 60"
    using adjust_probe_interval_clamped[of 100 0 ?esm] by (simp add: clamp_def)
  have "map (probe_interval \<circ> snd)
          (state_table (fst (batch_adjust (CTLC_init kp target_stability) ?esm))) = [9, 60]"
    by (simp add: batch_adjust_def a b Let_def set_probe_interval_def clamp_def
        probe_interval_min_def probe_interval_max_def)
  with d a show ?thesis by simp
qed

section \<open>CMAB: what an update touches\<close>

lemmas strategy_names =
  FOCUS_UNCERTAINTY_def HIGHFREQ_UNSTABLE_def COVERAGE_BALANCER_def EVENT_TRIGGER_def
  CMAB_STRATEGIES_values_def

lemma select_strategy_focus:
  "select_strategy (CMAB_init 4 4) [1, 0, 0, 0] focus_draw =
     (Inr FOCUS_UNCERTAINTY,
      (CMAB_init 4 4)
        \<lparr>selected_strategy := Some FOCUS_UNCERTAINTY,
         history :=
           [\<lparr>h_context = [1, 0, 0, 0], h_strategy = FOCUS_UNCERTAINTY,
             h_scores = [(FOCUS_UNCERTAINTY, 1), (HIGHFREQ_UNSTABLE, 0),
                         (COVERAGE_BALANCER, 0), (EVENT_TRIGGER, 0)],
             h_sampled_theta =
               [(FOCUS_UNCERTAINTY, [1, 0, 0, 0]), (HIGHFREQ_UNSTABLE, [0, 0, 0, 0]),
                (COVERAGE_BALANCER, [0, 0, 0, 0]), (EVENT_TRIGGER, [0, 0, 0, 0])]\<rparr>]\<rparr>)"
  by (simp add: select_strategy_def CMAB_init_def strategy_names focus_draw_def vec_dot_def
      Let_def)

lemmas linalg_defs =
  linalg_inv_def is_matrix_def np_eye_def upt_conv_Cons swap_rows_def vec_scale_def
  sub_row_def Let_def

lemma inv_diag2:
  "linalg_inv [[2, 0, 0, 0], [0, 1, 0, 0], [0, 0, 1, 0], [0, 0, 0, 1]]
     = Some [[1 / 2, 0, 0, 0], [0, 1, 0, 0], [0, 0, 1, 0], [0, 0, 0, 1]]"
  by (simp add: linalg_defs)

lemma inv_diag3:
  "linalg_inv [[3, 0, 0, 0], [0, 1, 0, 0], [0, 0, 1, 0], [0, 0, 0, 1]]
     = Some [[1 / 3, 0, 0, 0], [0, 1, 0, 0], [0, 0, 1, 0], [0, 0, 0, 1]]"
  by (simp add: linalg_defs)

lemma cmab_selected_fields:
  "selected_strategy cmab_selected = Some FOCUS_UNCERTAINTY
   \<and> mu cmab_selected = mu (CMAB_init 4 4)
   \<and> Sigma cmab_selected = Sigma (CMAB_init 4 4)
   \<and> Sigma_inv cmab_selected = Sigma_inv (CMAB_init 4 4)"
  by (simp add: cmab_selected_def select_strategy_focus)

lemma CMAB_init_arm:
  "s \<in> set CMAB_STRATEGIES_values \<Longrightarrow>
   mu (CMAB_init 4 4) s = Some [0, 0, 0, 0]
   \<and> Sigma (CMAB_init 4 4) s = Some [[1, 0, 0, 0], [0, 1, 0, 0], [0, 0, 1, 0], [0, 0, 0, 1]]
   \<and> Sigma_inv (CMAB_init 4 4) s = Some [[1, 0, 0, 0], [0, 1, 0, 0], [0, 0, 1, 0], [0, 0, 0, 1]]"
  by (simp add: CMAB_init_def np_zeros_def np_eye_def upt_conv_Cons numeral_eq_Suc)

lemma focus_is_arm: "FOCUS_UNCERTAINTY \<in> set CMAB_STRATEGIES_values"
  and highfreq_is_arm: "HIGHFREQ_UNSTABLE \<in> set CMAB_STRATEGIES_values"
  by (simp_all add: strategy_names)

text \<open>The first reward, 1 on the context \<open>[1, 0, 0, 0]\<close>: the mean of the arm becomes 1/2.\<close>

lemma cmab_rewarded_fields:
  "selected_strategy cmab_rewarded = Some FOCUS_UNCERTAINTY
   \<and> mu cmab_rewarded FOCUS_UNCERTAINTY = Some [1 / 2, 0, 0, 0]
   \<and> Sigma_inv cmab_rewarded FOCUS_UNCERTAINTY
       = Some [[2, 0, 0, 0], [0, 1, 0, 0], [0, 0, 1, 0], [0, 0, 0, 1]]
   \<and> Sigma cmab_rewarded FOCUS_UNCERTAINTY
       = Some [[1 / 2, 0, 0, 0], [0, 1, 0, 0], [0, 0, 1, 0], [0, 0, 0, 1]]"
  unfolding cmab_rewarded_def
  using cmab_selected_fields CMAB_init_arm[OF focus_is_arm]
  apply (simp add: update_def)
  apply (simp add: mat_add_def mat_scale_def outer_def vec_scale_def inv_diag2)
  apply (simp add: mat_vec_def is_matrix_def vec_add_def vec_scale_def)
  done

text \<open>
  What a call of \<open>update\<close> that returns normally has computed for the selected arm: the
  new precision is the old one plus \<open>(1/\<nu>) c c\<^sup>T\<close>, the new covariance is its inverse, and
  the new mean is the covariance applied to \<open>\<Lambda> \<mu>_old + (1/\<nu>) c r\<close>, where \<open>\<Lambda>\<close> is the new
  precision.
\<close>

lemma update_computes:
  assumes "selected_strategy self = Some a" and "update self c r nv = (None, self')"
  shows "\<exists>precision_old mu_old precision_new covariance_new weighted rhs mu_new.
           Sigma_inv self a = Some precision_old \<and> mu self a = Some mu_old
           \<and> mat_add precision_old (mat_scale (1 / nv) (outer c c)) = Some precision_new
           \<and> Sigma_inv self' a = Some precision_new
           \<and> linalg_inv precision_new = Some covariance_new
           \<and> Sigma self' a = Some covariance_new
           \<and> mat_vec precision_new mu_old = Some weighted
           \<and> vec_add weighted (vec_scale r (vec_scale (1 / nv) c)) = Some rhs
           \<and> mat_vec covariance_new rhs = Some mu_new
           \<and> mu self' a = Some mu_new"
  using assms by (auto simp: update_def Let_def split: option.splits if_splits)

text \<open>
  C1. The second reward of a round sequence: the arm \<open>focus_uncertainty\<close> has mean
  \<open>[1/2, 0, 0, 0]\<close> and precision \<open>diag(2, 1, 1, 1)\<close>, and \<open>update\<close> is called with context
  \<open>[1, 0, 0, 0]\<close>, reward 1 and noise variance 1. The precision becomes
  \<open>diag(3, 1, 1, 1)\<close> and the covariance its inverse, as the claim says; the mean the code
  stores is \<open>[5/6, 0, 0, 0]\<close>, computed from the new precision, where the formula of the
  claim (and of the comment in the code) gives \<open>[2/3, 0, 0, 0]\<close>.
\<close>

theorem update_mean_reads_new_precision:
  "selected_strategy cmab_rewarded = Some FOCUS_UNCERTAINTY
   \<and> Sigma_inv cmab_rewarded FOCUS_UNCERTAINTY
       = Some [[2, 0, 0, 0], [0, 1, 0, 0], [0, 0, 1, 0], [0, 0, 0, 1]]
   \<and> mu cmab_rewarded FOCUS_UNCERTAINTY = Some [1 / 2, 0, 0, 0]
   \<and> fst (update cmab_rewarded [1, 0, 0, 0] 1 1) = None
   \<and> Sigma_inv (snd (update cmab_rewarded [1, 0, 0, 0] 1 1)) FOCUS_UNCERTAINTY
       = Some [[3, 0, 0, 0], [0, 1, 0, 0], [0, 0, 1, 0], [0, 0, 0, 1]]
   \<and> Sigma (snd (update cmab_rewarded [1, 0, 0, 0] 1 1)) FOCUS_UNCERTAINTY
       = Some [[1 / 3, 0, 0, 0], [0, 1, 0, 0], [0, 0, 1, 0], [0, 0, 0, 1]]
   \<and> mu (snd (update cmab_rewarded [1, 0, 0, 0] 1 1)) FOCUS_UNCERTAINTY
       = Some [5 / 6, 0, 0, 0]
   \<and> spec_posterior_mean [[2, 0, 0, 0], [0, 1, 0, 0], [0, 0, 1, 0], [0, 0, 0, 1]]
        [1 / 2, 0, 0, 0] [1, 0, 0, 0] 1 1 = Some [2 / 3, 0, 0, 0]"
proof -
  have spec: "spec_posterior_mean [[2, 0, 0, 0], [0, 1, 0, 0], [0, 0, 1, 0], [0, 0, 0, 1]]
        [1 / 2, 0, 0, 0] [1, 0, 0, 0] 1 1 = Some [2 / 3, 0, 0, 0]"
    apply (simp add: spec_posterior_mean_def)
    apply (simp add: mat_add_def mat_scale_def outer_def vec_scale_def inv_diag3)
    apply (simp add: mat_vec_def is_matrix_def vec_add_def vec_scale_def)
    done
  have code: "update cmab_rewarded [1, 0, 0, 0] 1 1 =
      (None, cmab_rewarded
          \<lparr>Sigma_inv := (Sigma_inv cmab_rewarded)
             (FOCUS_UNCERTAINTY \<mapsto> [[3, 0, 0, 0], [0, 1, 0, 0], [0, 0, 1, 0], [0, 0, 0, 1]]),
           Sigma := (Sigma cmab_rewarded)
             (FOCUS_UNCERTAINTY \<mapsto> [[1 / 3, 0, 0, 0], [0, 1, 0, 0], [0, 0, 1, 0], [0, 0, 0, 1]]),
           mu := (mu cmab_rewarded)(FOCUS_UNCERTAINTY \<mapsto> [5 / 6, 0, 0, 0])\<rparr>)"
    using cmab_rewarded_fields
    apply (simp add: update_def)
    apply (simp add: mat_add_def mat_scale_def outer_def vec_scale_def inv_diag3)
    apply (simp add: mat_vec_def is_matrix_def vec_add_def vec_scale_def)
    done
  show ?thesis
    using cmab_rewarded_fields spec by (simp add: code)
qed

text \<open>
  C8. A call of \<open>update\<close> changes nothing but the mean, covariance and precision of the
  selected arm: for every other arm the three parameters are what they were, and so are
  the history, the selection and the dimensions, whatever the context, the reward and the
  noise variance, and also when the call raises.
\<close>

theorem update_frame:
  "(\<forall>s. selected_strategy self \<noteq> Some s \<longrightarrow>
        mu (snd (update self c r nv)) s = mu self s
      \<and> Sigma (snd (update self c r nv)) s = Sigma self s
      \<and> Sigma_inv (snd (update self c r nv)) s = Sigma_inv self s)
   \<and> history (snd (update self c r nv)) = history self
   \<and> selected_strategy (snd (update self c r nv)) = selected_strategy self
   \<and> strategies (snd (update self c r nv)) = strategies self
   \<and> n_features (snd (update self c r nv)) = n_features self
   \<and> n_arms (snd (update self c r nv)) = n_arms self"
  by (auto simp: update_def Let_def split: option.splits)

text \<open>
  After the first selection, the first reward moves the mean of \<open>focus_uncertainty\<close> to
  \<open>[1/2, 0, 0, 0]\<close> and leaves \<open>highfreq_unstable\<close> at its initial parameters.
\<close>

theorem update_frame_witness:
  "selected_strategy cmab_selected \<noteq> Some HIGHFREQ_UNSTABLE
   \<and> mu (snd (update cmab_selected [1, 0, 0, 0] 1 1)) HIGHFREQ_UNSTABLE = Some [0, 0, 0, 0]
   \<and> Sigma (snd (update cmab_selected [1, 0, 0, 0] 1 1)) HIGHFREQ_UNSTABLE
       = Some [[1, 0, 0, 0], [0, 1, 0, 0], [0, 0, 1, 0], [0, 0, 0, 1]]
   \<and> Sigma_inv (snd (update cmab_selected [1, 0, 0, 0] 1 1)) HIGHFREQ_UNSTABLE
       = Some [[1, 0, 0, 0], [0, 1, 0, 0], [0, 0, 1, 0], [0, 0, 0, 1]]
   \<and> mu (snd (update cmab_selected [1, 0, 0, 0] 1 1)) FOCUS_UNCERTAINTY
       = Some [1 / 2, 0, 0, 0]"
proof -
  have other: "selected_strategy cmab_selected \<noteq> Some HIGHFREQ_UNSTABLE"
    using cmab_selected_fields by (simp add: strategy_names)
  have "mu (snd (update cmab_selected [1, 0, 0, 0] 1 1)) HIGHFREQ_UNSTABLE
          = mu cmab_selected HIGHFREQ_UNSTABLE
        \<and> Sigma (snd (update cmab_selected [1, 0, 0, 0] 1 1)) HIGHFREQ_UNSTABLE
          = Sigma cmab_selected HIGHFREQ_UNSTABLE
        \<and> Sigma_inv (snd (update cmab_selected [1, 0, 0, 0] 1 1)) HIGHFREQ_UNSTABLE
          = Sigma_inv cmab_selected HIGHFREQ_UNSTABLE"
    using update_frame[of cmab_selected "[1, 0, 0, 0]" 1 1] other by blast
  then show ?thesis
    using other cmab_selected_fields CMAB_init_arm[OF highfreq_is_arm] cmab_rewarded_fields
    by (simp add: cmab_rewarded_def)
qed

text \<open>
  C9. While no arm has been selected (\<open>selected_strategy\<close> is \<open>None\<close>, as it is until
  the first \<open>select_strategy\<close> returns), \<open>update\<close> returns at once: no exception, and the
  bandit, with the mean, covariance and precision of every arm, is the one it was, for
  every context, reward and noise variance. This holds in particular for the bandit
  \<open>CMAB()\<close> builds.
\<close>

theorem update_before_select_noop:
  "(selected_strategy self = None \<longrightarrow> update self c r nv = (None, self))
   \<and> update (CMAB_init nf na) c r nv = (None, CMAB_init nf na)"
  by (simp add: update_def CMAB_init_def)

theorem update_before_select_noop_witness:
  "selected_strategy (CMAB_init 4 4) = None
   \<and> update (CMAB_init 4 4) [1 / 2, 1 / 5, 3 / 10, 1 / 10] (1 / 2) 1 = (None, CMAB_init 4 4)"
proof -
  have none: "selected_strategy (CMAB_init 4 4) = None"
    by (simp add: CMAB_init_def)
  with update_before_select_noop[of "CMAB_init 4 4" "[1 / 2, 1 / 5, 3 / 10, 1 / 10]" "1 / 2" 1 4 4]
  show ?thesis by blast
qed

section \<open>PRIO: scoring, ranking and the top K\<close>

lemma score_pool_task_in_pool:
  "e \<in> set (score_pool self pool esm em s) \<Longrightarrow> task e \<in> set pool"
  by (induction pool) (auto simp: Let_def split: option.splits)

lemma score_pool_has_state:
  "e \<in> set (score_pool self pool esm em s) \<Longrightarrow>
   get_state esm (entity_id (task e)) (metric (task e)) \<noteq> None"
  by (induction pool) (auto simp: Let_def split: option.splits)

lemma length_score_pool: "length (score_pool self pool esm em s) \<le> length pool"
  by (induction pool) (auto simp: Let_def split: option.splits)

lemma set_slice_to: "set (slice_to k xs) \<subseteq> set xs"
  by (auto simp: slice_to_def dest: in_set_takeD)

lemma length_slice_to: "0 \<le> k \<Longrightarrow> length (slice_to k xs) \<le> nat k"
  by (simp add: slice_to_def)

lemma sorted_wrt_slice_to: "sorted_wrt R xs \<Longrightarrow> sorted_wrt R (slice_to k xs)"
  by (simp add: slice_to_def sorted_wrt_take)

lemma set_sort_reverse: "set (sort_reverse key xs) = set xs"
  by (simp add: sort_reverse_def)

lemma sort_reverse_descending:
  "sorted_wrt (\<lambda>a b. key a \<ge> key b) (sort_reverse key xs)"
proof -
  have "sorted (map (\<lambda>x. - key x) (sort_reverse key xs))"
    by (simp add: sort_reverse_def)
  then show ?thesis
    by (simp add: sorted_wrt_map)
qed

lemma sort_reverse_stable:
  "filter (\<lambda>x. key x = p) (sort_reverse key xs) = filter (\<lambda>x. key x = p) xs"
  using sort_key_stable[of "\<lambda>x. - key x" "- p" xs]
  by (simp add: sort_reverse_def)

lemma select_top_k_set:
  "set (select_top_k self pool esm em s k) \<subseteq> set (score_pool self pool esm em s)"
  using set_slice_to[of k "sort_reverse priority (score_pool self pool esm em s)"]
  by (simp add: select_top_k_def set_sort_reverse Let_def)

lemma select_top_k_bounded:
  "0 \<le> k \<Longrightarrow>
     length (select_top_k self pool esm em s k) \<le> nat k
     \<and> task ` set (select_top_k self pool esm em s k) \<subseteq> set pool
     \<and> sorted_wrt (\<lambda>a b. priority a \<ge> priority b) (select_top_k self pool esm em s k)"
  using select_top_k_set[of self pool esm em s k] score_pool_task_in_pool[of _ self pool esm em s]
  by (auto simp: select_top_k_def Let_def length_slice_to sorted_wrt_slice_to
      sort_reverse_descending)

lemma select_tasks_returns:
  "select_tasks self k0 draw = (Inr sel, self') \<Longrightarrow>
   \<exists>s esm1. tasks sel =
       select_top_k (aps_prio self) (task_pool (aps_uq self)) esm1 (aps_em self) s
         (case k0 of None \<Rightarrow> top_k | Some k' \<Rightarrow> k')
     \<and> aps_uq self' = aps_uq self"
  by (fastforce simp: select_tasks_def Let_def split: prod.splits sum.splits)

subsection \<open>The worked examples, evaluated\<close>

lemma net_states:
  "get_state net_esm L1 METRICS_RTT = Some fresh_state"
  "get_state net_esm L2 METRICS_RTT = Some fresh_state"
  "get_state net_esm L3 METRICS_RTT = Some fresh_state"
  "get_state net_esm ''9-9:9-9'' METRICS_RTT = None"
  by (simp_all add: get_state_def net_esm_def L1_def L2_def L3_def)

lemma swept_states:
  "get_state swept_esm L1 METRICS_RTT = Some (fresh_state\<lparr>probe_interval := 11\<rparr>)"
  "get_state swept_esm L2 METRICS_RTT = Some (fresh_state\<lparr>probe_interval := 11\<rparr>)"
  "get_state swept_esm L3 METRICS_RTT = Some (fresh_state\<lparr>probe_interval := 11\<rparr>)"
  "get_state swept_esm ''9-9:9-9'' METRICS_RTT = None"
  by (simp_all add: get_state_def swept_esm_def L1_def L2_def L3_def)

lemma score_tied_pool:
  "score_pool (PRIO_init None) tied_pool net_esm None COVERAGE_BALANCER = tied_scores"
  by (simp add: tied_pool_def net_states Let_def calculate_policy_match_def
      calculate_priority_def PRIO_init_def APS_priority_weights_def fresh_state_def
      strategy_names tied_scores_def)

lemma rank_tied_pool:
  "select_top_k (PRIO_init None) tied_pool net_esm None COVERAGE_BALANCER 3 = tied_scores"
  by (simp add: select_top_k_def score_tied_pool sort_reverse_def slice_to_def tied_scores_def)

lemma rank_ranked_pool:
  "select_top_k (PRIO_init None) ranked_pool swept_esm None FOCUS_UNCERTAINTY 2 = top2_sel"
  apply (simp add: select_top_k_def ranked_pool_def swept_states Let_def)
  apply (simp add: calculate_policy_match_def calculate_priority_def swept_states
      PRIO_init_def APS_priority_weights_def fresh_state_def max_uncertainty_def
      sort_reverse_def slice_to_def top2_sel_def)
  done

lemma net_context: "get_context_vector net_esm None = [1, 0, 0, 0]"
  by (simp add: get_context_vector_def net_esm_def population_mean_def fresh_state_def
      max_uncertainty_def max_stability_def)

lemma net_sweep:
  "batch_adjust (CTLC_init kp target_stability) net_esm =
     (swept_esm,
      [\<lparr>adj_entity_id = L1, adj_metric = METRICS_RTT, old_interval = 10, new_interval = 11,
        adj_stability = 0\<rparr>,
       \<lparr>adj_entity_id = L2, adj_metric = METRICS_RTT, old_interval = 10, new_interval = 11,
        adj_stability = 0\<rparr>,
       \<lparr>adj_entity_id = L3, adj_metric = METRICS_RTT, old_interval = 10, new_interval = 11,
        adj_stability = 0\<rparr>])"
  apply (simp add: batch_adjust_def net_esm_def swept_esm_def)
  apply (simp add: adjust_probe_interval_def CTLC_init_def kp_def target_stability_def
      fresh_state_def probe_interval_min_def probe_interval_max_def Let_def)
  apply (simp add: set_probe_interval_def clamp_def probe_interval_min_def
      probe_interval_max_def L1_def L2_def L3_def)
  done

text \<open>The first round of the scheduler over the network, with \<open>k = 2\<close>.\<close>

lemma net_first_round:
  "select_tasks net_aps (Some 2) focus_draw =
     (Inr \<lparr>tasks = top2_sel, strategy = FOCUS_UNCERTAINTY, context_list = [1, 0, 0, 0],
           interval_adjustments = snd (batch_adjust (CTLC_init kp target_stability) net_esm)\<rparr>,
      net_aps\<lparr>aps_cmab := cmab_selected, aps_esm := swept_esm,
        aps_stats := \<lparr>total_rounds = 1, total_tasks_selected = 2,
                      strategy_history = [FOCUS_UNCERTAINTY]\<rparr>\<rparr>)"
  unfolding select_tasks_def
  apply (simp add: net_aps_def ActiveProbingScheduler_init_def net_context
      select_strategy_focus net_sweep rank_ranked_pool Let_def)
  apply (simp add: cmab_selected_def top2_sel_def select_strategy_focus)
  done

subsection \<open>The claims on the ranking\<close>




text \<open>
  C4. For every pool and every \<open>k \<ge> 0\<close>, \<open>select_top_k\<close> returns at most \<open>k\<close> entries,
  every returned task is a task of the pool, and the priorities do not increase along
  the list. The same holds for the tasks of the selection \<open>select_tasks\<close> returns, with
  the pool of the scheduler's \<open>uq\<close> (which the call leaves as it is) and \<open>k\<close> defaulting
  to \<open>top_k\<close>.
\<close>

theorem select_tasks_top_k:
  "(0 \<le> k \<longrightarrow>
      length (select_top_k self pool esm em s k) \<le> nat k
      \<and> task ` set (select_top_k self pool esm em s k) \<subseteq> set pool
      \<and> sorted_wrt (\<lambda>a b. priority a \<ge> priority b) (select_top_k self pool esm em s k))
   \<and> (select_tasks aps k0 draw = (Inr sel, aps')
        \<and> 0 \<le> (case k0 of None \<Rightarrow> top_k | Some k' \<Rightarrow> k') \<longrightarrow>
      length (tasks sel) \<le> nat (case k0 of None \<Rightarrow> top_k | Some k' \<Rightarrow> k')
      \<and> task ` set (tasks sel) \<subseteq> set (task_pool (aps_uq aps))
      \<and> aps_uq aps' = aps_uq aps
      \<and> sorted_wrt (\<lambda>a b. priority a \<ge> priority b) (tasks sel))"
proof (intro conjI impI)
  assume "0 \<le> k"
  from select_top_k_bounded[OF this, of self pool esm em s]
  show "length (select_top_k self pool esm em s k) \<le> nat k"
    and "task ` set (select_top_k self pool esm em s k) \<subseteq> set pool"
    and "sorted_wrt (\<lambda>a b. priority a \<ge> priority b) (select_top_k self pool esm em s k)"
    by simp_all
next
  let ?k = "case k0 of None \<Rightarrow> top_k | Some k' \<Rightarrow> k'"
  assume a: "select_tasks aps k0 draw = (Inr sel, aps') \<and> 0 \<le> ?k"
  then obtain s1 esm1 where
    sel: "tasks sel = select_top_k (aps_prio aps) (task_pool (aps_uq aps)) esm1 (aps_em aps) s1 ?k"
    and uq: "aps_uq aps' = aps_uq aps"
    using select_tasks_returns[of aps k0 draw sel aps'] by blast
  from a have k: "0 \<le> ?k" by simp
  note b = select_top_k_bounded[OF k, of "aps_prio aps" "task_pool (aps_uq aps)" esm1 "aps_em aps" s1]
  show "length (tasks sel) \<le> nat ?k" using b sel by simp
  show "task ` set (tasks sel) \<subseteq> set (task_pool (aps_uq aps))" using b sel by simp
  show "aps_uq aps' = aps_uq aps" by (rule uq)
  show "sorted_wrt (\<lambda>a b. priority a \<ge> priority b) (tasks sel)" using b sel by simp
qed

text \<open>
  The first round over the network with \<open>k = 2\<close>: of the four tasks of the pool, the two
  with the highest priority among those with a state, in descending order.
\<close>

theorem select_tasks_top_k_witness:
  "(0::int) \<le> 2
   \<and> fst (select_tasks net_aps (Some 2) focus_draw)
       = Inr \<lparr>tasks = top2_sel, strategy = FOCUS_UNCERTAINTY, context_list = [1, 0, 0, 0],
              interval_adjustments =
                snd (batch_adjust (CTLC_init kp target_stability) net_esm)\<rparr>
   \<and> length top2_sel \<le> nat 2
   \<and> task ` set top2_sel \<subseteq> set (task_pool (aps_uq net_aps))
   \<and> sorted_wrt (\<lambda>a b. priority a \<ge> priority b) top2_sel
   \<and> map priority top2_sel = [8 / 25, 7 / 25]
   \<and> length (select_top_k (PRIO_init None) ranked_pool swept_esm None FOCUS_UNCERTAINTY 2)
       \<le> nat 2"
proof -
  let ?sel = "\<lparr>tasks = top2_sel, strategy = FOCUS_UNCERTAINTY, context_list = [1, 0, 0, 0],
              interval_adjustments =
                snd (batch_adjust (CTLC_init kp target_stability) net_esm)\<rparr>"
  let ?aps = "net_aps\<lparr>aps_cmab := cmab_selected, aps_esm := swept_esm,
        aps_stats := \<lparr>total_rounds = 1, total_tasks_selected = 2,
                      strategy_history = [FOCUS_UNCERTAINTY]\<rparr>\<rparr>"
  have run: "select_tasks net_aps (Some 2) focus_draw = (Inr ?sel, ?aps)"
    by (rule net_first_round)
  have k: "(0::int) \<le> 2" by simp
  from select_tasks_top_k[of 2 "PRIO_init None" ranked_pool swept_esm None FOCUS_UNCERTAINTY
      net_aps "Some 2" focus_draw ?sel ?aps] run k
  have "length (select_top_k (PRIO_init None) ranked_pool swept_esm None FOCUS_UNCERTAINTY 2)
          \<le> nat 2
        \<and> length (tasks ?sel) \<le> nat 2
        \<and> task ` set (tasks ?sel) \<subseteq> set (task_pool (aps_uq net_aps))
        \<and> sorted_wrt (\<lambda>a b. priority a \<ge> priority b) (tasks ?sel)"
    by simp
  then show ?thesis
    using run by (simp add: top2_sel_def)
qed

lemma score_pool_tasks:
  "map task (score_pool self pool esm em s)
     = filter (\<lambda>t. get_state esm (entity_id t) (metric t) \<noteq> None) pool"
  by (induction pool) (auto simp: Let_def split: option.splits)

text \<open>
  C5. The list \<open>select_top_k\<close> returns is in descending order of priority, and this is
  all the order it has: the sort is stable on the priority alone, so tasks of equal
  priority stand in the order of the task pool. For \<open>k \<ge> 0\<close> the result is the first
  \<open>k\<close> entries of the full ranking; the entries of any one priority are, in the full
  ranking, in the order in which the pool was scored; and the pool is scored in its own
  order: the tasks of the scored entries are the tasks of the pool that have a state, in
  the order of the pool, so the tasks of any one priority are in the full ranking in the
  order in which they stand in the pool.
\<close>

theorem select_top_k_stable:
  "sorted_wrt (\<lambda>a b. priority a \<ge> priority b) (select_top_k self pool esm em s k)
   \<and> (0 \<le> k \<longrightarrow>
        select_top_k self pool esm em s k
          = take (nat k) (select_top_k self pool esm em s (int (length pool))))
   \<and> (\<forall>p. filter (\<lambda>e. priority e = p) (select_top_k self pool esm em s (int (length pool)))
          = filter (\<lambda>e. priority e = p) (score_pool self pool esm em s))
   \<and> map task (score_pool self pool esm em s)
       = filter (\<lambda>t. get_state esm (entity_id t) (metric t) \<noteq> None) pool
   \<and> (\<forall>p. map task (filter (\<lambda>e. priority e = p)
                       (select_top_k self pool esm em s (int (length pool))))
          = map task (filter (\<lambda>e. priority e = p) (score_pool self pool esm em s)))"
proof -
  have full: "select_top_k self pool esm em s (int (length pool))
                = sort_reverse priority (score_pool self pool esm em s)"
    using length_score_pool[of self pool esm em s]
    by (simp add: select_top_k_def slice_to_def sort_reverse_def)
  have sorted: "sorted_wrt (\<lambda>a b. priority a \<ge> priority b) (select_top_k self pool esm em s k)"
    by (simp add: select_top_k_def Let_def sorted_wrt_slice_to sort_reverse_descending)
  have prefix: "0 \<le> k \<longrightarrow>
        select_top_k self pool esm em s k
          = take (nat k) (select_top_k self pool esm em s (int (length pool)))"
    unfolding full by (simp add: select_top_k_def Let_def slice_to_def)
  have stable: "\<forall>p. filter (\<lambda>e. priority e = p)
                      (select_top_k self pool esm em s (int (length pool)))
          = filter (\<lambda>e. priority e = p) (score_pool self pool esm em s)"
    unfolding full by (simp add: sort_reverse_stable)
  from sorted prefix stable score_pool_tasks[of self pool esm em s]
  show ?thesis by simp
qed

text \<open>
  Three tasks that tie on priority and on EIG come out in pool order, \<open>L2\<close>, \<open>L1\<close>, \<open>L3\<close>,
  and the top two are the first two of them.
\<close>

theorem select_top_k_stable_witness:
  "(0::int) \<le> 2
   \<and> select_top_k (PRIO_init None) tied_pool net_esm None COVERAGE_BALANCER 2
       = take 2 (select_top_k (PRIO_init None) tied_pool net_esm None COVERAGE_BALANCER 3)
   \<and> filter (\<lambda>e. priority e = 2 / 5)
        (select_top_k (PRIO_init None) tied_pool net_esm None COVERAGE_BALANCER 3)
       = tied_scores
   \<and> map task tied_scores = tied_pool
   \<and> map (entity_id \<circ> task) tied_scores = [L2, L1, L3]"
proof -
  have len: "int (length tied_pool) = 3"
    by (simp add: tied_pool_def)
  have k: "(0::int) \<le> 2" by simp
  have all: "filter (\<lambda>e. priority e = 2 / 5) tied_scores = tied_scores"
    by (simp add: tied_scores_def)
  note st = select_top_k_stable[of "PRIO_init None" tied_pool net_esm None COVERAGE_BALANCER 2]
  have a: "select_top_k (PRIO_init None) tied_pool net_esm None COVERAGE_BALANCER 2
       = take 2 (select_top_k (PRIO_init None) tied_pool net_esm None COVERAGE_BALANCER 3)"
    using st k unfolding len by simp
  have "filter (\<lambda>e. priority e = 2 / 5)
          (select_top_k (PRIO_init None) tied_pool net_esm None COVERAGE_BALANCER 3)
        = filter (\<lambda>e. priority e = 2 / 5)
          (score_pool (PRIO_init None) tied_pool net_esm None COVERAGE_BALANCER)"
    using st unfolding len by blast
  then have b: "filter (\<lambda>e. priority e = 2 / 5)
          (select_top_k (PRIO_init None) tied_pool net_esm None COVERAGE_BALANCER 3)
        = tied_scores"
    unfolding score_tied_pool all .
  have "map task (score_pool (PRIO_init None) tied_pool net_esm None COVERAGE_BALANCER)
          = filter (\<lambda>t. get_state net_esm (entity_id t) (metric t) \<noteq> None) tied_pool"
    using st by blast
  then have c: "map task tied_scores = tied_pool"
    unfolding score_tied_pool by (simp add: tied_pool_def net_states)
  have "map (entity_id \<circ> task) tied_scores = [L2, L1, L3]"
    by (simp add: tied_scores_def)
  with a b c k show ?thesis by blast
qed

text \<open>
  The claim as stated fails on these three tasks: they tie on priority (2/5) and on EIG
  (1/2), and the result lists \<open>L2\<close> before \<open>L1\<close> before \<open>L3\<close>, which is neither the
  ascending nor the descending lexicographic order of the entity ids.
\<close>

theorem select_top_k_tie_counterexample:
  "map (entity_id \<circ> task)
       (select_top_k (PRIO_init None) tied_pool net_esm None COVERAGE_BALANCER 3)
     = [L2, L1, L3]
   \<and> map priority
       (select_top_k (PRIO_init None) tied_pool net_esm None COVERAGE_BALANCER 3)
     = [2 / 5, 2 / 5, 2 / 5]
   \<and> map (eig \<circ> task)
       (select_top_k (PRIO_init None) tied_pool net_esm None COVERAGE_BALANCER 3)
     = [1 / 2, 1 / 2, 1 / 2]
   \<and> L1 < L2 \<and> L2 < L3
   \<and> \<not> sorted_wrt spec_ranked_before
         (select_top_k (PRIO_init None) tied_pool net_esm None COVERAGE_BALANCER 3)"
  by (simp add: rank_tied_pool tied_scores_def spec_ranked_before_def)
    (simp add: L1_def L2_def L3_def)

text \<open>
  C10. A task of the pool whose pair has no state in the ESM is not among the tasks
  \<open>select_top_k\<close> returns, for every strategy, every \<open>k\<close> and every event manager.
\<close>

theorem select_top_k_excludes_stateless:
  "t \<in> set pool \<Longrightarrow> get_state esm (entity_id t) (metric t) = None \<Longrightarrow>
   t \<notin> task ` set (select_top_k self pool esm em s k)"
proof
  assume none: "get_state esm (entity_id t) (metric t) = None"
  assume "t \<in> task ` set (select_top_k self pool esm em s k)"
  then obtain e where "e \<in> set (select_top_k self pool esm em s k)" and "t = task e"
    by auto
  with select_top_k_set[of self pool esm em s k] score_pool_has_state[of e self pool esm em s] none
  show False by auto
qed

text \<open>
  The task on \<open>9-9:9-9\<close> has the highest gain of \<open>ranked_pool\<close> and no state: a selection
  of four tasks does not hold it.
\<close>

theorem select_top_k_excludes_stateless_witness:
  "\<lparr>entity_id = ''9-9:9-9'', metric = METRICS_RTT, eig = 1\<rparr> \<in> set ranked_pool
   \<and> get_state net_esm ''9-9:9-9'' METRICS_RTT = None
   \<and> \<lparr>entity_id = ''9-9:9-9'', metric = METRICS_RTT, eig = 1\<rparr>
       \<notin> task ` set (select_top_k (PRIO_init None) ranked_pool net_esm None
                        FOCUS_UNCERTAINTY 4)"
proof -
  let ?t = "\<lparr>entity_id = ''9-9:9-9'', metric = METRICS_RTT, eig = 1\<rparr>"
  have mem: "?t \<in> set ranked_pool"
    by (simp add: ranked_pool_def)
  have none: "get_state net_esm (entity_id ?t) (metric ?t) = None"
    by (simp add: net_states)
  from select_top_k_excludes_stateless[OF mem none, of "PRIO_init None" None FOCUS_UNCERTAINTY 4]
    mem none
  show ?thesis by simp
qed

section \<open>EM: the triggers a detection pass leaves\<close>

lemma triggered_Nil: "\<not> triggered core [] e m"
  by (simp add: triggered_def)

lemma triggered_append:
  "triggered core (xs @ ys) e m \<longleftrightarrow> triggered core xs e m \<or> triggered core ys e m"
  by (auto simp: triggered_def)

lemma detect_anomalies_events:
  "detect_anomalies now self eid met state = (evs, self1) \<Longrightarrow>
   (\<forall>ev \<in> set evs. ev_entity_id ev = eid \<and> ev_metric ev = met)
   \<and> recent_events self1 = recent_events self
   \<and> event_triggers self1 = event_triggers self
   \<and> core_entities self1 = core_entities self"
  by (auto simp: detect_anomalies_def Let_def split: if_splits option.splits)

lemma fire_event_effect:
  "recent_events (fire_event eid met ev self) = recent_events self @ [ev]
   \<and> core_entities (fire_event eid met ev self) = core_entities self
   \<and> event_triggers (fire_event eid met ev self) (e, m) =
       (if (e = eid \<and> m = met)
           \<or> (e = eid \<and> eid \<in> core_entities self \<and> met = METRICS_RTT
               \<and> (m = METRICS_PLR \<or> m = METRICS_BANDWIDTH))
        then Some 1 else event_triggers self (e, m))"
  by (simp add: fire_event_def add_event_def Let_def)

lemma fold_fire_event:
  "\<forall>ev \<in> set evs. ev_entity_id ev = eid \<and> ev_metric ev = met \<Longrightarrow>
   recent_events (fold (fire_event eid met) evs self) = recent_events self @ evs
   \<and> core_entities (fold (fire_event eid met) evs self) = core_entities self
   \<and> event_triggers (fold (fire_event eid met) evs self) (e, m) =
       (if triggered (core_entities self) evs e m then Some 1 else event_triggers self (e, m))"
proof (induction evs arbitrary: self)
  case Nil
  then show ?case by (simp add: triggered_Nil)
next
  case (Cons ev evs)
  have ev: "ev_entity_id ev = eid" "ev_metric ev = met" using Cons.prems by auto
  have rest: "\<forall>ev \<in> set evs. ev_entity_id ev = eid \<and> ev_metric ev = met"
    using Cons.prems by simp
  have one: "triggered (core_entities self) [ev] e m \<longleftrightarrow>
      (e = eid \<and> m = met)
           \<or> (e = eid \<and> eid \<in> core_entities self \<and> met = METRICS_RTT
               \<and> (m = METRICS_PLR \<or> m = METRICS_BANDWIDTH))"
    using ev by (auto simp: triggered_def)
  have split: "triggered (core_entities self) (ev # evs) e m \<longleftrightarrow>
      triggered (core_entities self) [ev] e m \<or> triggered (core_entities self) evs e m"
    using triggered_append[of "core_entities self" "[ev]" evs e m] by simp
  show ?case
    using Cons.IH[OF rest, of "fire_event eid met ev self"]
      fire_event_effect[of eid met ev self e m]
    unfolding split one by auto
qed

text \<open>
  The loop over the state table appends the events it fires to \<open>recent_events\<close> and
  raises exactly their triggers over those it started with.
\<close>

lemma detect_loop_effect:
  "\<exists>new. recent_events (detect_loop now items self) = recent_events self @ new
     \<and> core_entities (detect_loop now items self) = core_entities self
     \<and> (\<forall>e m. event_triggers (detect_loop now items self) (e, m) =
           (if triggered (core_entities self) new e m then Some 1
            else event_triggers self (e, m)))"
proof (induction items arbitrary: self)
  case Nil
  show ?case by (simp add: triggered_Nil)
next
  case (Cons item items)
  obtain eid met state where item: "item = ((eid, met), state)"
    by (cases item) auto
  obtain evs self1 where det: "detect_anomalies now self eid met state = (evs, self1)"
    by (cases "detect_anomalies now self eid met state") auto
  note d = detect_anomalies_events[OF det]
  let ?self2 = "fold (fire_event eid met) evs self1"
  have f: "recent_events ?self2 = recent_events self @ evs"
      "core_entities ?self2 = core_entities self"
      "\<And>e m. event_triggers ?self2 (e, m) =
          (if triggered (core_entities self) evs e m then Some 1 else event_triggers self (e, m))"
    using fold_fire_event[of evs eid met self1] d by auto
  from Cons.IH[of ?self2] obtain new where new:
    "recent_events (detect_loop now items ?self2) = recent_events ?self2 @ new"
    "core_entities (detect_loop now items ?self2) = core_entities ?self2"
    "\<And>e m. event_triggers (detect_loop now items ?self2) (e, m) =
           (if triggered (core_entities ?self2) new e m then Some 1
            else event_triggers ?self2 (e, m))"
    by blast
  have loop: "detect_loop now (item # items) self = detect_loop now items ?self2"
    by (simp add: item det)
  show ?case
    unfolding loop
    by (rule exI[of _ "evs @ new"]) (simp add: new f triggered_append)
qed

lemma get_event_trigger_triggered:
  "get_event_trigger (check_and_detect_events now self esm) e m =
     (if triggered (core_entities self) (pass_events now self esm) e m then 1 else 0)"
proof -
  let ?self2 = "(clean_recent_events self now)\<lparr>event_triggers := Map.empty\<rparr>"
  have chk: "check_and_detect_events now self esm = detect_loop now (state_table esm) ?self2"
    by (simp add: check_and_detect_events_def Let_def)
  obtain new where new:
    "recent_events (detect_loop now (state_table esm) ?self2) = recent_events ?self2 @ new"
    "\<And>e m. event_triggers (detect_loop now (state_table esm) ?self2) (e, m) =
           (if triggered (core_entities ?self2) new e m then Some 1
            else event_triggers ?self2 (e, m))"
    using detect_loop_effect[of now "state_table esm" ?self2] by blast
  have "pass_events now self esm = new"
    by (simp add: pass_events_def chk new(1))
  moreover have "core_entities ?self2 = core_entities self"
    by (simp add: clean_recent_events_def Let_def)
  ultimately show ?thesis
    by (simp add: get_event_trigger_def chk new(2))
qed

lemmas metric_names =
  METRICS_RTT_def METRICS_PLR_def METRICS_BANDWIDTH_def METRICS_LIVENESS_def

lemma detect_unstable_rtt:
  "detect_anomalies 100 em0 L1 METRICS_RTT
     (fresh_state\<lparr>get_stability := 1, distribution_mu := None\<rparr>) = ([instability_event], em0)"
  by (simp add: detect_anomalies_def metric_names Let_def stability_threshold_def
      max_stability_def instability_event_def)

lemma detect_healthy_liveness:
  "detect_anomalies 100 em0 L2 METRICS_LIVENESS
     (fresh_state\<lparr>get_confidence := 9 / 10, distribution_mu := None\<rparr>) = ([], em0)"
  by (simp add: detect_anomalies_def metric_names Let_def liveness_threshold_def)

lemma watch_pass_events: "pass_events 100 stale_em watch_esm = [instability_event]"
  by (simp add: pass_events_def check_and_detect_events_def watch_esm_def
      detect_unstable_rtt detect_healthy_liveness Let_def fire_event_def add_event_def
      clean_recent_events_def stale_em_def EventManager_init_def add_core_entity_def)

lemma stale_em_core: "core_entities stale_em = {L1}"
  by (simp add: stale_em_def add_core_entity_def EventManager_init_def)

text \<open>
  C7. After a call of \<open>check_and_detect_events\<close>, \<open>get_event_trigger(e, m)\<close> is 1.0 when
  an event fired on \<open>(e, m)\<close> during the pass, or when \<open>e\<close> is a core entity on which an
  \<open>rtt\<close> event fired during the pass and \<open>m\<close> is \<open>plr\<close> or \<open>bandwidth\<close>; it is 0.0 for
  every other pair, whatever triggers the manager held before the pass.
\<close>

theorem event_triggers_after_pass:
  "get_event_trigger (check_and_detect_events now self esm) e m =
     (if (\<exists>ev \<in> set (pass_events now self esm). ev_entity_id ev = e \<and> ev_metric ev = m)
         \<or> (e \<in> core_entities self \<and> (m = METRICS_PLR \<or> m = METRICS_BANDWIDTH)
            \<and> (\<exists>ev \<in> set (pass_events now self esm).
                  ev_entity_id ev = e \<and> ev_metric ev = METRICS_RTT))
      then 1 else 0)"
  using get_event_trigger_triggered[of now self esm e m]
  by (simp only: triggered_def)

text \<open>
  A pass over the watched network: the instability event on \<open>(L1, rtt)\<close> raises the
  trigger of its pair and, \<open>L1\<close> being a core entity, those of \<open>(L1, plr)\<close> and
  \<open>(L1, bandwidth)\<close>; the trigger on \<open>(L2, plr)\<close> from the earlier pass is gone.
\<close>

theorem event_triggers_after_pass_witness:
  "event_triggers stale_em (L2, METRICS_PLR) = Some 1
   \<and> pass_events 100 stale_em watch_esm = [instability_event]
   \<and> get_event_trigger (check_and_detect_events 100 stale_em watch_esm) L1 METRICS_RTT = 1
   \<and> get_event_trigger (check_and_detect_events 100 stale_em watch_esm) L1 METRICS_PLR = 1
   \<and> get_event_trigger (check_and_detect_events 100 stale_em watch_esm) L1 METRICS_BANDWIDTH = 1
   \<and> get_event_trigger (check_and_detect_events 100 stale_em watch_esm) L2 METRICS_PLR = 0
   \<and> get_event_trigger (check_and_detect_events 100 stale_em watch_esm) L2 METRICS_LIVENESS = 0"
proof -
  have stale: "event_triggers stale_em (L2, METRICS_PLR) = Some 1"
    by (simp add: stale_em_def)
  note t = event_triggers_after_pass[of 100 stale_em watch_esm, unfolded watch_pass_events
      stale_em_core]
  have "get_event_trigger (check_and_detect_events 100 stale_em watch_esm) L1 METRICS_RTT = 1"
    using t[of L1 METRICS_RTT] by (simp add: instability_event_def)
  moreover
  have "get_event_trigger (check_and_detect_events 100 stale_em watch_esm) L1 METRICS_PLR = 1"
    using t[of L1 METRICS_PLR] by (simp add: instability_event_def)
  moreover
  have "get_event_trigger (check_and_detect_events 100 stale_em watch_esm) L1 METRICS_BANDWIDTH = 1"
    using t[of L1 METRICS_BANDWIDTH] by (simp add: instability_event_def)
  moreover
  have "get_event_trigger (check_and_detect_events 100 stale_em watch_esm) L2 METRICS_PLR = 0"
    using t[of L2 METRICS_PLR] by (simp add: instability_event_def L1_def L2_def)
  moreover
  have "get_event_trigger (check_and_detect_events 100 stale_em watch_esm) L2 METRICS_LIVENESS = 0"
    using t[of L2 METRICS_LIVENESS] by (simp add: instability_event_def L1_def L2_def)
  ultimately show ?thesis
    using stale watch_pass_events by simp
qed

section \<open>APS: the context of the reward update\<close>

lemma update_ignores_history:
  "update (cm\<lparr>history := h\<rparr>) c r nv
     = (fst (update cm c r nv), (snd (update cm c r nv))\<lparr>history := h\<rparr>)"
  by (simp add: update_def Let_def split: option.splits)

lemma select_strategy_records:
  "select_strategy cm c draw = (Inr s, cm') \<Longrightarrow>
   history cm' \<noteq> [] \<and> h_context (last (history cm')) = c
   \<and> h_strategy (last (history cm')) = s \<and> selected_strategy cm' = Some s"
  by (auto simp: select_strategy_def split: sum.splits option.splits prod.splits)

lemma select_tasks_records:
  "select_tasks self0 k0 draw = (Inr sel, self1) \<Longrightarrow>
   history (aps_cmab self1) \<noteq> []
   \<and> h_context (last (history (aps_cmab self1)))
       = get_context_vector (aps_esm self0) (aps_em self0)
   \<and> context_list sel = get_context_vector (aps_esm self0) (aps_em self0)"
  using select_strategy_records[of "aps_cmab self0"
      "get_context_vector (aps_esm self0) (aps_em self0)" draw]
  by (auto simp: select_tasks_def Let_def split: sum.splits prod.splits)

lemma measured_context: "get_context_vector measured_esm None = [1 / 2, 0, 0, 0]"
  by (simp add: get_context_vector_def measured_esm_def population_mean_def fresh_state_def
      max_uncertainty_def max_stability_def)

lemma net_aps_selected_fields:
  "aps_cmab net_aps_selected = cmab_selected \<and> aps_em net_aps_selected = None"
  unfolding net_aps_selected_def net_first_round
  by (simp add: net_aps_def ActiveProbingScheduler_init_def)

lemma inv_diag54:
  "linalg_inv [[5 / 4, 0, 0, 0], [0, 1, 0, 0], [0, 0, 1, 0], [0, 0, 0, 1]]
     = Some [[4 / 5, 0, 0, 0], [0, 1, 0, 0], [0, 0, 1, 0], [0, 0, 0, 1]]"
  by (simp add: linalg_defs)

lemma update_on_measured_context:
  "update cmab_selected [1 / 2, 0, 0, 0] 1 1 =
      (None, cmab_selected
          \<lparr>Sigma_inv := (Sigma_inv cmab_selected)
             (FOCUS_UNCERTAINTY \<mapsto> [[5 / 4, 0, 0, 0], [0, 1, 0, 0], [0, 0, 1, 0], [0, 0, 0, 1]]),
           Sigma := (Sigma cmab_selected)
             (FOCUS_UNCERTAINTY \<mapsto> [[4 / 5, 0, 0, 0], [0, 1, 0, 0], [0, 0, 1, 0], [0, 0, 0, 1]]),
           mu := (mu cmab_selected)(FOCUS_UNCERTAINTY \<mapsto> [2 / 5, 0, 0, 0])\<rparr>)"
  using cmab_selected_fields CMAB_init_arm[OF focus_is_arm]
  apply (simp add: update_def)
  apply (simp add: mat_add_def mat_scale_def outer_def vec_scale_def inv_diag54)
  apply (simp add: mat_vec_def is_matrix_def vec_add_def vec_scale_def)
  done

text \<open>
  C2. \<open>update_reward\<close> passes to \<open>CMAB.update\<close> the context vector
  \<open>get_context_vector()\<close> returns when \<open>update_reward\<close> is called, with noise variance 1.
  The context \<open>select_strategy\<close> recorded, which is the context vector at the time of
  \<open>select_tasks\<close>, is kept in the history, and \<open>update\<close> does not read the history: with
  any other history it raises the same and computes the same bandit. So the context of
  the update is the recorded one only when the ESM yields the same context vector at
  both moments.
\<close>

theorem update_reward_current_context:
  "update_reward self reward =
     (fst (update (aps_cmab self) (get_context_vector (aps_esm self) (aps_em self)) reward 1),
      self\<lparr>aps_cmab :=
        snd (update (aps_cmab self) (get_context_vector (aps_esm self) (aps_em self)) reward 1)\<rparr>)
   \<and> update (cm\<lparr>history := h\<rparr>) c r nv
       = (fst (update cm c r nv), (snd (update cm c r nv))\<lparr>history := h\<rparr>)
   \<and> (select_tasks before kopt draw = (Inr sel, after) \<longrightarrow>
        history (aps_cmab after) \<noteq> []
        \<and> h_context (last (history (aps_cmab after)))
            = get_context_vector (aps_esm before) (aps_em before))"
  using select_tasks_records[of before kopt draw sel after]
  by (simp add: update_reward_def Let_def update_ignores_history split: prod.splits)

text \<open>
  The first round over the network records the context \<open>[1, 0, 0, 0]\<close>; once the
  measurements are in, \<open>update_reward\<close> updates with \<open>[1/2, 0, 0, 0]\<close>.
\<close>

theorem update_reward_current_context_witness:
  "fst (select_tasks net_aps (Some 2) focus_draw)
     = Inr \<lparr>tasks = top2_sel, strategy = FOCUS_UNCERTAINTY, context_list = [1, 0, 0, 0],
            interval_adjustments = snd (batch_adjust (CTLC_init kp target_stability) net_esm)\<rparr>
   \<and> h_context (last (history (aps_cmab net_aps_selected))) = [1, 0, 0, 0]
   \<and> update_reward net_aps_measured 1
       = (None, net_aps_measured\<lparr>aps_cmab := snd (update cmab_selected [1 / 2, 0, 0, 0] 1 1)\<rparr>)"
proof -
  let ?sel = "\<lparr>tasks = top2_sel, strategy = FOCUS_UNCERTAINTY, context_list = [1, 0, 0, 0],
            interval_adjustments = snd (batch_adjust (CTLC_init kp target_stability) net_esm)\<rparr>"
  have run: "select_tasks net_aps (Some 2) focus_draw = (Inr ?sel, net_aps_selected)"
    unfolding net_aps_selected_def net_first_round by simp
  have ctx0: "get_context_vector (aps_esm net_aps) (aps_em net_aps) = [1, 0, 0, 0]"
    by (simp add: net_aps_def ActiveProbingScheduler_init_def net_context)
  have ctx1: "get_context_vector (aps_esm net_aps_measured) (aps_em net_aps_measured)
                = [1 / 2, 0, 0, 0]"
    using net_aps_selected_fields by (simp add: net_aps_measured_def measured_context)
  have cm: "aps_cmab net_aps_measured = cmab_selected"
    using net_aps_selected_fields by (simp add: net_aps_measured_def)
  note t = update_reward_current_context[where self = net_aps_measured and reward = 1
      and before = net_aps and kopt = "Some 2" and draw = focus_draw and sel = ?sel
      and after = net_aps_selected]
  have "h_context (last (history (aps_cmab net_aps_selected))) = [1, 0, 0, 0]"
    using t run ctx0 by simp
  moreover have "update_reward net_aps_measured 1
       = (None, net_aps_measured\<lparr>aps_cmab := snd (update cmab_selected [1 / 2, 0, 0, 0] 1 1)\<rparr>)"
    using t unfolding ctx1 cm by (simp add: update_on_measured_context)
  ultimately show ?thesis using run by simp
qed

text \<open>
  The claim as stated fails in that round: the recorded context is \<open>[1, 0, 0, 0]\<close>, the
  context of the update is \<open>[1/2, 0, 0, 0]\<close>, and the arm ends with precision
  \<open>diag(5/4, 1, 1, 1)\<close> and mean \<open>[2/5, 0, 0, 0]\<close>, where an update with the recorded
  context gives \<open>diag(2, 1, 1, 1)\<close> and \<open>[1/2, 0, 0, 0]\<close>.
\<close>

theorem update_reward_context_counterexample:
  "map h_context (history (aps_cmab net_aps_measured)) = [[1, 0, 0, 0]]
   \<and> get_context_vector (aps_esm net_aps_measured) (aps_em net_aps_measured)
       = [1 / 2, 0, 0, 0]
   \<and> Sigma_inv (aps_cmab (snd (update_reward net_aps_measured 1))) FOCUS_UNCERTAINTY
       = Some [[5 / 4, 0, 0, 0], [0, 1, 0, 0], [0, 0, 1, 0], [0, 0, 0, 1]]
   \<and> mu (aps_cmab (snd (update_reward net_aps_measured 1))) FOCUS_UNCERTAINTY
       = Some [2 / 5, 0, 0, 0]
   \<and> Sigma_inv (snd (update (aps_cmab net_aps_measured) [1, 0, 0, 0] 1 1)) FOCUS_UNCERTAINTY
       = Some [[2, 0, 0, 0], [0, 1, 0, 0], [0, 0, 1, 0], [0, 0, 0, 1]]
   \<and> mu (snd (update (aps_cmab net_aps_measured) [1, 0, 0, 0] 1 1)) FOCUS_UNCERTAINTY
       = Some [1 / 2, 0, 0, 0]"
  using net_aps_selected_fields cmab_rewarded_fields
  by (simp add: net_aps_measured_def update_reward_def measured_context
      update_on_measured_context cmab_rewarded_def[symmetric])
    (simp add: cmab_selected_def select_strategy_focus)

end
